theory Spec2Isabelle
  imports Complex_Main "HOL-Library.Word"
begin

unbundle bit_operations_syntax

section \<open>Values of the platform\<close>

text \<open>
  The exceptions the platform functions used by the sources can raise: \<open>atob\<close> raises
  InvalidCharacterError, the \<open>Int16Array\<close> constructor RangeError,
  \<open>createBuffer\<close> NotSupportedError, a property access on \<open>null\<close> or
  \<open>undefined\<close> TypeError. \<open>CloseError\<close> stands for whatever \<open>session.close()\<close>
  throws when closing fails.
\<close>

datatype error = InvalidCharacterError | RangeError | NotSupportedError | TypeError | CloseError

text \<open>
  A JavaScript number. The finite values are modelled as reals: the finite values of a
  \<open>Float32Array\<close> and the doubles of the audio clock are rationals, and the codec only
  multiplies and divides by \<open>32768\<close>, which is exact in binary floating point. The
  sums and quotients that move the playback cursor are taken exactly, without the
  rounding of doubles.
\<close>

datatype number = Num real | PosInfinity | NegInfinity | NaN

type_synonym Uint8Array = "8 word list"
type_synonym Int16Array = "16 word list"
type_synonym Float32Array = "number list"

section \<open>The transport encoding: \<open>btoa\<close> and \<open>atob\<close>\<close>

text \<open>
  \<open>btoa\<close> and \<open>atob\<close> are the browser's functions; they are modelled after the
  forgiving-base64 encode and decode algorithms of the WHATWG Infra standard. A binary
  string is a \<open>string\<close> here: its characters are 8-bit, as every code unit that
  \<open>encode\<close> builds with \<open>String.fromCharCode(bytes[i])\<close> is; the branch of
  \<open>btoa\<close> that throws on a code unit above 255 therefore does not exist in the model.
\<close>

definition base64_alphabet :: string where
  "base64_alphabet = ''ABCDEFGHIJKLMNOPQRSTUVWXYZabcdefghijklmnopqrstuvwxyz0123456789+/''"

fun index_of :: "'a list \<Rightarrow> 'a \<Rightarrow> nat option" where
  "index_of [] y = None"
| "index_of (x # xs) y = (if x = y then Some 0 else map_option Suc (index_of xs y))"

definition sextet_char :: "nat \<Rightarrow> char" where
  "sextet_char n = base64_alphabet ! n"

definition char_sextet :: "char \<Rightarrow> nat option" where
  "char_sextet c = index_of base64_alphabet c"

text \<open>Three bytes give four 6-bit groups; one or two trailing bytes give two or three.\<close>

fun sextets :: "nat list \<Rightarrow> nat list" where
  "sextets (a # b # c # rest) =
     [a div 4, (a mod 4) * 16 + b div 16, (b mod 16) * 4 + c div 64, c mod 64] @ sextets rest"
| "sextets [a, b] = [a div 4, (a mod 4) * 16 + b div 16, (b mod 16) * 4]"
| "sextets [a] = [a div 4, (a mod 4) * 16]"
| "sextets [] = []"

definition padding :: "nat \<Rightarrow> string" where
  "padding n = replicate ((3 - n mod 3) mod 3) (CHR ''='')"

definition btoa :: "string \<Rightarrow> string" where
  "btoa s = map sextet_char (sextets (map of_char s)) @ padding (length s)"

definition ascii_whitespace :: "char \<Rightarrow> bool" where
  "ascii_whitespace c \<longleftrightarrow> c \<in> {CHR 0x09, CHR 0x0A, CHR 0x0C, CHR 0x0D, CHR 0x20}"

text \<open>If the length is a multiple of four, one or two trailing \<open>=\<close> are removed.\<close>

definition strip_padding :: "string \<Rightarrow> string" where
  "strip_padding s =
     (if length s mod 4 = 0 then
        (case rev s of
           c1 # c2 # r \<Rightarrow>
             if c1 = CHR ''='' \<and> c2 = CHR ''='' then rev r
             else if c1 = CHR ''='' then rev (c2 # r)
             else s
         | _ \<Rightarrow> s)
      else s)"

text \<open>
  Four 6-bit groups give three bytes; two or three left over give one or two bytes, the
  spare low bits being discarded.
\<close>

fun octets :: "nat list \<Rightarrow> nat list" where
  "octets (p # q # r # s # rest) =
     [p * 4 + q div 16, (q mod 16) * 16 + r div 4, (r mod 4) * 64 + s] @ octets rest"
| "octets [p, q, r] = [p * 4 + q div 16, (q mod 16) * 16 + r div 4]"
| "octets [p, q] = [p * 4 + q div 16]"
| "octets _ = []"

definition atob :: "string \<Rightarrow> error + string" where
  "atob data =
     (let d = strip_padding (filter (\<lambda>c. \<not> ascii_whitespace c) data) in
      if length d mod 4 = 1 then Inl InvalidCharacterError
      else (case those (map char_sextet d) of
              None \<Rightarrow> Inl InvalidCharacterError
            | Some xs \<Rightarrow> Inr (map char_of (octets xs))))"

section \<open>The PCM codec\<close>

text \<open>\<open>encode\<close>: the loop appends one character per byte, then \<open>btoa\<close>.\<close>

definition encode :: "Uint8Array \<Rightarrow> string" where
  "encode bytes = btoa (foldl (\<lambda>binary b. binary @ [char_of (unat b)]) [] bytes)"

text \<open>
  \<open>decode\<close>: \<open>atob\<close>, then one byte per character; an exception of \<open>atob\<close>
  leaves the function.
\<close>

definition decode :: "string \<Rightarrow> error + Uint8Array" where
  "decode base64 =
     (case atob base64 of
        Inl e \<Rightarrow> Inl e
      | Inr binaryString \<Rightarrow> Inr (map (\<lambda>c. word_of_nat (of_char c)) binaryString))"


text \<open>
  Storing a number into an \<open>Int16Array\<close> applies ToInt16 of ECMAScript: NaN and the
  infinities give 0, a finite number is truncated toward zero and reduced modulo
  \<open>2 ^ 16\<close> into the signed range. Passing a number as an \<open>unsigned long\<close> (the
  frame count of \<open>createBuffer\<close>) applies ToUint32, which truncates likewise; its
  reduction modulo \<open>2 ^ 32\<close> is left out, as lists and strings are unbounded here and
  the memory limits of the platform are not modelled.
\<close>

definition trunc :: "real \<Rightarrow> int" where
  "trunc r = (if 0 \<le> r then \<lfloor>r\<rfloor> else \<lceil>r\<rceil>)"

definition ToInt16 :: "number \<Rightarrow> 16 word" where
  "ToInt16 x = (case x of Num r \<Rightarrow> word_of_int (trunc r) | _ \<Rightarrow> 0)"

definition ToUint32 :: "number \<Rightarrow> nat" where
  "ToUint32 x = (case x of Num r \<Rightarrow> nat (trunc r) | _ \<Rightarrow> 0)"

text \<open>\<open>data[i] * 32768\<close>: the product of a number with the positive constant.\<close>

definition times32768 :: "number \<Rightarrow> number" where
  "times32768 x = (case x of Num r \<Rightarrow> Num (r * 32768) | other \<Rightarrow> other)"

text \<open>
  \<open>new Uint8Array(int16.buffer)\<close> and \<open>new Int16Array(data.buffer)\<close> view the same
  memory in the byte order of the platform, taken to be little-endian: low byte first.
  The \<open>Int16Array\<close> constructor throws RangeError on a buffer of odd length;
  \<open>decodeAudioData\<close> checks that before it calls \<open>int16_view\<close>.
\<close>

definition int16_bytes :: "16 word \<Rightarrow> Uint8Array" where
  "int16_bytes w = [ucast w, ucast (drop_bit 8 w)]"

fun int16_view :: "Uint8Array \<Rightarrow> Int16Array" where
  "int16_view (lo # hi # rest) = (ucast lo OR push_bit 8 (ucast hi)) # int16_view rest"
| "int16_view _ = []"

record Blob =
  data :: string
  mimeType :: string

text \<open>\<open>createBlob\<close> (the standalone script): one 16-bit sample per input sample.\<close>

definition createBlob :: "Float32Array \<Rightarrow> Blob" where
  "createBlob samples =
     (let int16 = map (\<lambda>x. ToInt16 (times32768 x)) samples
      in \<lparr>data = encode (concat (map int16_bytes int16)),
          mimeType = ''audio/pcm;rate=16000''\<rparr>)"

text \<open>\<open>createAudioBlobForLive\<close> (the live service of the React app) has the same body.\<close>

definition createAudioBlobForLive :: "Float32Array \<Rightarrow> Blob" where
  "createAudioBlobForLive samples =
     (let int16 = map (\<lambda>x. ToInt16 (times32768 x)) samples
      in \<lparr>data = encode (concat (map int16_bytes int16)),
          mimeType = ''audio/pcm;rate=16000''\<rparr>)"

text \<open>
  The audio context, as far as the sources use it: its identity, its \<open>state\<close>, and the
  limits of \<open>createBuffer\<close>. The Web Audio API has \<open>createBuffer\<close> throw
  NotSupportedError when the number of channels or the number of frames is zero, or when
  the number of channels or the sample rate is outside the range the implementation
  supports. The clock of a context, \<open>currentTime\<close>, moves by itself: a handler that
  reads it takes the reading as an argument.
\<close>

datatype AudioContextState = Suspended | Running | Closed

record AudioContext =
  contextId :: nat
  state :: AudioContextState
  maxNumberOfChannels :: nat
  minSampleRate :: real
  maxSampleRate :: real

record AudioBuffer =
  frames :: nat
  sampleRate :: real
  channelData :: "Float32Array list"

definition duration :: "AudioBuffer \<Rightarrow> real" where
  "duration buffer = real (frames buffer) / sampleRate buffer"

definition createBuffer :: "AudioContext \<Rightarrow> nat \<Rightarrow> number \<Rightarrow> real \<Rightarrow> error + AudioBuffer" where
  "createBuffer ctx numberOfChannels len rate =
     (let n = ToUint32 len in
      if numberOfChannels = 0 \<or> maxNumberOfChannels ctx < numberOfChannels \<or> n = 0
         \<or> rate < minSampleRate ctx \<or> maxSampleRate ctx < rate
      then Inl NotSupportedError
      else Inr \<lparr>frames = n, sampleRate = rate,
                channelData = replicate numberOfChannels (replicate n (Num 0))\<rparr>)"

text \<open>\<open>dataInt16.length / numChannels\<close>: a division of numbers, not of integers.\<close>

definition js_divide :: "nat \<Rightarrow> nat \<Rightarrow> number" where
  "js_divide a b =
     (if b = 0 then (if a = 0 then NaN else PosInfinity) else Num (real a / real b))"

text \<open>
  The number of turns of \<open>for (let i = 0; i < frameCount; i++)\<close>. The loop is only reached
  after \<open>createBuffer\<close> has accepted a non-zero number of channels, so the frame count is
  finite there.
\<close>

definition iterations :: "number \<Rightarrow> nat" where
  "iterations frameCount = (case frameCount of Num r \<Rightarrow> nat \<lceil>r\<rceil> | _ \<Rightarrow> 0)"

text \<open>
  \<open>dataInt16[j] / 32768.0\<close>: reading a typed array out of range gives \<open>undefined\<close>, and
  the quotient is NaN.
\<close>

definition int16_at :: "Int16Array \<Rightarrow> nat \<Rightarrow> number" where
  "int16_at dataInt16 j =
     (if j < length dataInt16 then Num (real_of_int (sint (dataInt16 ! j)) / 32768) else NaN)"

text \<open>
  The inner loop. A store into a typed array out of range is ignored, as the list update
  is.
\<close>

definition fill_channel :: "Int16Array \<Rightarrow> nat \<Rightarrow> nat \<Rightarrow> nat \<Rightarrow> Float32Array \<Rightarrow> Float32Array" where
  "fill_channel dataInt16 numChannels channel count cd =
     foldl (\<lambda>cd i. cd[i := int16_at dataInt16 (i * numChannels + channel)]) cd [0..<count]"

text \<open>
  \<open>decodeAudioData\<close>. The byte array is the one \<open>decode\<close> has just allocated, so
  \<open>data.buffer\<close> holds exactly its bytes.
\<close>

definition decodeAudioData :: "Uint8Array \<Rightarrow> AudioContext \<Rightarrow> real \<Rightarrow> nat \<Rightarrow> error + AudioBuffer" where
  "decodeAudioData bytes ctx rate numChannels =
     (if odd (length bytes) then Inl RangeError
      else
        let dataInt16 = int16_view bytes;
            frameCount = js_divide (length dataInt16) numChannels
        in case createBuffer ctx numChannels frameCount rate of
             Inl e \<Rightarrow> Inl e
           | Inr buffer \<Rightarrow>
               Inr (buffer\<lparr>channelData :=
                      map (\<lambda>channel. fill_channel dataInt16 numChannels channel
                                       (iterations frameCount) (channelData buffer ! channel))
                          [0..<numChannels]\<rparr>))"


text \<open>
  The de-interleaved samples of one channel, as the two loops of \<open>decodeAudioData\<close>
  leave them in the buffer: the statement of what the loops compute.
\<close>

definition planar :: "Int16Array \<Rightarrow> nat \<Rightarrow> nat \<Rightarrow> Float32Array" where
  "planar dataInt16 numChannels channel =
     map (\<lambda>i. Num (real_of_int (sint (dataInt16 ! (i * numChannels + channel))) / 32768))
         [0..<length dataInt16 div numChannels]"

section \<open>Messages of the live service and effects on the platform\<close>

text \<open>
  A \<open>LiveServerMessage\<close>, as far as the handlers read it. \<open>serverContent\<close> may be
  absent. A transcription is given by its text, taken to be present; texts are strings
  of 8-bit characters here. \<open>modelTurn\<close> may
  be absent; when present its \<open>parts\<close> may be undefined (\<open>NoParts\<close>), and each part
  is given by its \<open>inlineData?.data\<close>, which may be undefined.
\<close>

datatype Content = NoParts | Parts "string option list"

record ServerContent =
  inputTranscription :: "string option"
  outputTranscription :: "string option"
  turnComplete :: bool
  modelTurn :: "Content option"
  interrupted :: bool

type_synonym LiveServerMessage = "ServerContent option"

text \<open>
  \<open>message.serverContent?.modelTurn?.parts[0]?.inlineData?.data\<close>: the chain stops at an
  absent \<open>serverContent\<close> or \<open>modelTurn\<close>, but \<open>parts[0]\<close> on undefined
  \<open>parts\<close> throws TypeError.
\<close>

definition inlineAudio :: "LiveServerMessage \<Rightarrow> error + string option" where
  "inlineAudio message =
     (case message of
        None \<Rightarrow> Inr None
      | Some sc \<Rightarrow>
          (case modelTurn sc of
             None \<Rightarrow> Inr None
           | Some NoParts \<Rightarrow> Inl TypeError
           | Some (Parts ps) \<Rightarrow> (case ps of [] \<Rightarrow> Inr None | p # _ \<Rightarrow> Inr p)))"

record AudioBufferSourceNode =
  sourceId :: nat
  buffer :: AudioBuffer
  playbackRate :: real

text \<open>
  What the program does to the platform is kept as a list of effects, oldest first;
  \<open>fresh\<close> numbers the objects the program creates.
\<close>

datatype effect =
    Connect nat
  | CloseSession nat
  | StopTracks nat
  | DisconnectNode nat
  | CloseContext nat
  | StartSource AudioBufferSourceNode real
  | StopSource AudioBufferSourceNode

record World =
  effects :: "effect list"
  fresh :: nat

section \<open>The standalone script: \<open>handleServerMessage\<close> and \<open>stopSession\<close>\<close>

record ScriptState = World +
  session :: "nat option"
  mediaStream :: "nat option"
  inputAudioContext :: "AudioContext option"
  outputAudioContext :: "AudioContext option"
  scriptProcessor :: "nat option"
  mediaStreamSource :: "nat option"
  nextStartTime :: real
  outputSources :: "AudioBufferSourceNode list"
  currentInputTranscription :: string
  currentOutputTranscription :: string
  fullUserTranscript :: string
  fullModelTranscript :: string

text \<open>The values the script gives its variables when it is loaded.\<close>

definition initialState :: ScriptState where
  "initialState =
     \<lparr>effects = [], fresh = 0,
      session = None, mediaStream = None,
      inputAudioContext = None, outputAudioContext = None,
      scriptProcessor = None, mediaStreamSource = None,
      nextStartTime = 0, outputSources = [],
      currentInputTranscription = [], currentOutputTranscription = [],
      fullUserTranscript = [], fullModelTranscript = []\<rparr>"

definition MAX_TRANSCRIPT_LINES :: nat where
  "MAX_TRANSCRIPT_LINES = 6"

text \<open>\<open>String.prototype.split\<close> with a string separator, \<open>trim\<close>, \<open>join\<close>.\<close>

fun split_loop :: "string \<Rightarrow> string \<Rightarrow> string \<Rightarrow> string list" where
  "split_loop sep acc [] = [acc]"
| "split_loop sep acc (c # cs) =
     (if take (length sep) (c # cs) = sep
      then acc # split_loop sep [] (drop (length sep - 1) cs)
      else split_loop sep (acc @ [c]) cs)"

definition js_split :: "string \<Rightarrow> string \<Rightarrow> string list" where
  "js_split sep s = (if sep = [] then map (\<lambda>c. [c]) s else split_loop sep [] s)"

definition js_whitespace :: "char \<Rightarrow> bool" where
  "js_whitespace c \<longleftrightarrow> c \<in> {CHR 0x09, CHR 0x0A, CHR 0x0B, CHR 0x0C, CHR 0x0D, CHR 0x20, CHR 0xA0}"

definition trim :: "string \<Rightarrow> string" where
  "trim s = rev (dropWhile js_whitespace (rev (dropWhile js_whitespace s)))"

fun js_join :: "string \<Rightarrow> string list \<Rightarrow> string" where
  "js_join sep [] = []"
| "js_join sep [x] = x"
| "js_join sep (x # y # ys) = x @ sep @ js_join sep (y # ys)"

text \<open>
  The trimming of a history at a turn boundary:
  \<open>lines = full.split('<br>').filter(line => line.trim() !== '')\<close>, and when there are
  more than \<open>MAX_TRANSCRIPT_LINES\<close> the last ones are joined again.
\<close>

definition trimHistory :: "string \<Rightarrow> string" where
  "trimHistory full =
     (let lines = filter (\<lambda>line. trim line \<noteq> []) (js_split ''<br>'' full)
      in if MAX_TRANSCRIPT_LINES < length lines
         then js_join ''<br>'' (drop (length lines - MAX_TRANSCRIPT_LINES) lines) @ ''<br>''
         else full)"

text \<open>
  The part of \<open>handleServerMessage\<close> under "Handle transcriptions". The writes to the
  page and the scrolling are left out: nothing reads them back.
\<close>

definition handleTranscriptions :: "LiveServerMessage \<Rightarrow> ScriptState \<Rightarrow> ScriptState" where
  "handleTranscriptions message s =
     (case message of
        None \<Rightarrow> s
      | Some sc \<Rightarrow>
          let s1 = (case inputTranscription sc of
                      None \<Rightarrow> s
                    | Some t \<Rightarrow> s\<lparr>currentInputTranscription := currentInputTranscription s @ t\<rparr>);
              s2 = (case outputTranscription sc of
                      None \<Rightarrow> s1
                    | Some t \<Rightarrow> s1\<lparr>currentOutputTranscription := currentOutputTranscription s1 @ t\<rparr>)
          in if turnComplete sc
             then s2\<lparr>fullUserTranscript :=
                        trimHistory (fullUserTranscript s2 @ currentInputTranscription s2 @ ''<br>''),
                      fullModelTranscript :=
                        trimHistory (fullModelTranscript s2 @ currentOutputTranscription s2 @ ''<br>''),
                      currentInputTranscription := [],
                      currentOutputTranscription := []\<rparr>
             else s2)"

text \<open>
  The part under "Handle audio output". The cursor is moved up to the clock before the
  payload is decoded; an exception of \<open>decode\<close> or \<open>decodeAudioData\<close> leaves the
  handler there. The source gets \<open>playbackRate.value = 1.15\<close>; the value of an
  \<open>AudioParam\<close> is a single-precision float, so what
  \<open>source.playbackRate.value\<close> reads back is the float nearest to 1.15, which is
  \<open>9646899 / 8388608\<close>. The cursor advances by the duration of the buffer divided by
  that value.
\<close>

definition handleAudioOutput :: "real \<Rightarrow> LiveServerMessage \<Rightarrow> ScriptState \<Rightarrow> error option \<times> ScriptState" where
  "handleAudioOutput currentTime message s =
     (case inlineAudio message of
        Inl e \<Rightarrow> (Some e, s)
      | Inr None \<Rightarrow> (None, s)
      | Inr (Some base64Audio) \<Rightarrow>
          (case outputAudioContext s of
             None \<Rightarrow> (None, s)
           | Some ctx \<Rightarrow>
               if base64Audio = [] then (None, s)
               else
                 let s1 = s\<lparr>nextStartTime := max (nextStartTime s) currentTime\<rparr>
                 in case decode base64Audio of
                      Inl e \<Rightarrow> (Some e, s1)
                    | Inr bytes \<Rightarrow>
                        (case decodeAudioData bytes ctx 24000 1 of
                           Inl e \<Rightarrow> (Some e, s1)
                         | Inr audioBuffer \<Rightarrow>
                             let source = \<lparr>sourceId = fresh s1, buffer = audioBuffer,
                                           playbackRate = 9646899 / 8388608\<rparr>
                             in (None,
                                 s1\<lparr>effects := effects s1 @ [StartSource source (nextStartTime s1)],
                                    fresh := Suc (fresh s1),
                                    nextStartTime :=
                                      nextStartTime s1 + duration audioBuffer / playbackRate source,
                                    outputSources := outputSources s1 @ [source]\<rparr>))))"

text \<open>The part under "Handle interruption": every source of the set is stopped and deleted.\<close>

definition handleInterruption :: "LiveServerMessage \<Rightarrow> ScriptState \<Rightarrow> ScriptState" where
  "handleInterruption message s =
     (case message of
        None \<Rightarrow> s
      | Some sc \<Rightarrow>
          if interrupted sc
          then s\<lparr>effects := effects s @ map StopSource (outputSources s),
                 outputSources := [],
                 nextStartTime := 0\<rparr>
          else s)"

text \<open>
  \<open>handleServerMessage\<close>: the three parts in the order of the source. The function is
  asynchronous; it is modelled as one step, with the exception that rejects its promise
  (if any) beside the state it leaves behind.
\<close>

definition handleServerMessage :: "real \<Rightarrow> LiveServerMessage \<Rightarrow> ScriptState \<Rightarrow> error option \<times> ScriptState" where
  "handleServerMessage currentTime message s =
     (case handleAudioOutput currentTime message (handleTranscriptions message s) of
        (Some e, s') \<Rightarrow> (Some e, s')
      | (None, s') \<Rightarrow> (None, handleInterruption message s'))"

text \<open>The listener for \<open>ended\<close> that every source gets.\<close>

definition sourceEnded :: "AudioBufferSourceNode \<Rightarrow> ScriptState \<Rightarrow> ScriptState" where
  "sourceEnded source s = s\<lparr>outputSources := removeAll source (outputSources s)\<rparr>"

text \<open>
  \<open>stopSession\<close>. \<open>closing\<close> is what \<open>session.close()\<close> does when it is called:
  \<open>None\<close> when it returns, the exception when it throws; nothing in the function
  catches it. After it, each block of the source tests one variable, acts on the object
  it holds and clears it; a context whose \<open>state\<close> is already \<open>closed\<close> is left in
  its variable.
\<close>

definition stopSession :: "error option \<Rightarrow> bool \<Rightarrow> ScriptState \<Rightarrow> error option \<times> ScriptState" where
  "stopSession closing sessionAlreadyClosed s =
     (case (if sessionAlreadyClosed then None else session s, closing) of
        (Some h, Some e) \<Rightarrow> (Some e, s)
      | (called, _) \<Rightarrow>
          let closed = (case called of None \<Rightarrow> [] | Some h \<Rightarrow> [CloseSession h]);
              tracks = (case mediaStream s of None \<Rightarrow> [] | Some m \<Rightarrow> [StopTracks m]);
              processor = (case scriptProcessor s of None \<Rightarrow> [] | Some p \<Rightarrow> [DisconnectNode p]);
              source = (case mediaStreamSource s of None \<Rightarrow> [] | Some n \<Rightarrow> [DisconnectNode n]);
              input = (case inputAudioContext s of
                         None \<Rightarrow> []
                       | Some c \<Rightarrow> if state c \<noteq> Closed then [CloseContext (contextId c)] else []);
              output = (case outputAudioContext s of
                          None \<Rightarrow> []
                        | Some c \<Rightarrow> if state c \<noteq> Closed then [CloseContext (contextId c)] else [])
          in (None,
              s\<lparr>effects := effects s @ closed @ tracks @ processor @ source @ input @ output,
                session := None,
                mediaStream := None,
                scriptProcessor := None,
                mediaStreamSource := None,
                inputAudioContext :=
                  (case inputAudioContext s of
                     None \<Rightarrow> None
                   | Some c \<Rightarrow> if state c \<noteq> Closed then None else Some c),
                outputAudioContext :=
                  (case outputAudioContext s of
                     None \<Rightarrow> None
                   | Some c \<Rightarrow> if state c \<noteq> Closed then None else Some c),
                fullUserTranscript := [],
                fullModelTranscript := [],
                currentInputTranscription := [],
                currentOutputTranscription := []\<rparr>))"

text \<open>
  \<open>startSession\<close>: it asks for the microphone, makes the two contexts, connects and
  awaits the session. \<open>getUserMedia\<close> is the outcome of the request (\<open>None\<close> when
  it gives a stream), \<open>settled\<close> how the session promise settles. An exception inside
  \<open>try\<close>, from a rejected request or a rejected promise, is caught and
  \<open>stopSession()\<close> runs; \<open>closing\<close> is what \<open>session.close()\<close> does if
  \<open>stopSession\<close> finds a session to close. The service calls \<open>onopen\<close> before
  it resolves the promise, so with a resolved promise the source node and the processor
  of \<open>onopen\<close> have been made. With a pending promise the function stays at the
  \<open>await\<close>, the variable \<open>session\<close> unset. The constructors of the contexts are
  taken to succeed.
\<close>

datatype SessionPromise = Resolved "error option" | Rejected error | Pending

definition startSession :: "AudioContext \<Rightarrow> error option \<Rightarrow> SessionPromise \<Rightarrow> error option \<Rightarrow> ScriptState \<Rightarrow> error option \<times> ScriptState" where
  "startSession platform getUserMedia settled closing s =
     (case getUserMedia of
        Some e \<Rightarrow> stopSession closing False s
      | None \<Rightarrow>
          let n = fresh s;
              s1 = s\<lparr>mediaStream := Some n,
                     inputAudioContext := Some (platform\<lparr>contextId := n + 1\<rparr>),
                     outputAudioContext := Some (platform\<lparr>contextId := n + 2\<rparr>),
                     effects := effects s @ [Connect (n + 3)],
                     fresh := n + 4\<rparr>
          in case settled of
               Resolved c \<Rightarrow>
                 (None,
                  s1\<lparr>mediaStreamSource := Some (n + 4),
                     scriptProcessor := Some (n + 5),
                     session := Some (n + 3),
                     fresh := n + 6\<rparr>)
             | Rejected e \<Rightarrow> stopSession closing False s1
             | Pending \<Rightarrow> (None, s1))"

section \<open>The React app: recording, the message handler, the transcript entries\<close>

text \<open>
  The state of the component and its refs. \<open>mediaStreamSourceRef\<close> holds the source node
  together with the media stream it was made from. The languages and the texts of the
  text translation are left out: recording does not read them back.
\<close>

record AppState = World +
  isRecording :: bool
  selectedDeviceId :: string
  error :: "string option"
  userInputHistory :: string
  translationHistory :: string
  startRecOnFavClick :: bool
  sessionPromiseRef :: "nat option"
  inputAudioContextRef :: "AudioContext option"
  outputAudioContextRef :: "AudioContext option"
  mediaStreamSourceRef :: "(nat \<times> nat) option"
  scriptProcessorRef :: "nat option"
  analyserNodeRef :: "nat option"
  nextStartTimeRef :: real

text \<open>The values of \<open>useState\<close> and \<open>useRef\<close> at the first render.\<close>

definition initialAppState :: AppState where
  "initialAppState =
     \<lparr>effects = [], fresh = 0,
      isRecording = False, selectedDeviceId = [], error = None,
      userInputHistory = [], translationHistory = [],
      startRecOnFavClick = False,
      sessionPromiseRef = None,
      inputAudioContextRef = None, outputAudioContextRef = None,
      mediaStreamSourceRef = None, scriptProcessorRef = None, analyserNodeRef = None,
      nextStartTimeRef = 0\<rparr>"




text \<open>
  \<open>startRecording\<close>. \<open>platform\<close> is the audio context the browser hands out (its limits),
  \<open>getUserMedia\<close> the outcome of the request for the microphone: \<open>None\<close> when it gives
  a stream, the exception when it rejects, which leaves the function after the two
  contexts have been made. The only test is the one on \<open>selectedDeviceId\<close>. The
  constructors of the contexts are taken to succeed.
\<close>

definition startRecording :: "AudioContext \<Rightarrow> error option \<Rightarrow> AppState \<Rightarrow> error option \<times> AppState" where
  "startRecording platform getUserMedia s =
     (if selectedDeviceId s = [] then (None, s\<lparr>error := Some ''No microphone selected.''\<rparr>)
      else
        let n = fresh s;
            s1 = s\<lparr>isRecording := True,
                   error := None,
                   userInputHistory := [],
                   translationHistory := [],
                   nextStartTimeRef := 0,
                   inputAudioContextRef := Some (platform\<lparr>contextId := n\<rparr>),
                   outputAudioContextRef := Some (platform\<lparr>contextId := n + 1\<rparr>),
                   fresh := n + 2\<rparr>
        in case getUserMedia of
             Some e \<Rightarrow> (Some e, s1)
           | None \<Rightarrow>
               (None,
                s1\<lparr>mediaStreamSourceRef := Some (n + 3, n + 2),
                   scriptProcessorRef := Some (n + 4),
                   analyserNodeRef := Some (n + 5),
                   sessionPromiseRef := Some (n + 6),
                   effects := effects s1 @ [Connect (n + 6)],
                   fresh := n + 7\<rparr>))"







definition MAX_HISTORY_LENGTH :: nat where
  "MAX_HISTORY_LENGTH = 1000"

text \<open>
  \<open>onMessage\<close> of the handlers that \<open>startRecording\<close> builds (the variant that keeps the
  two history strings). With the output context gone, \<open>decodeAudioData\<close> still makes the
  \<open>Int16Array\<close> and then fails on \<open>ctx.createBuffer\<close>. The source keeps the default
  playback rate 1, and the cursor advances by the duration of the buffer. Like
  \<open>handleServerMessage\<close> the handler is asynchronous and is modelled as one step.
\<close>

definition onMessage :: "real \<Rightarrow> LiveServerMessage \<Rightarrow> AppState \<Rightarrow> error option \<times> AppState" where
  "onMessage currentTime message s =
     (let s1 = (case message of
                  None \<Rightarrow> s
                | Some sc \<Rightarrow>
                    let a = (case inputTranscription sc of
                               None \<Rightarrow> s
                             | Some textChunk \<Rightarrow>
                                 let h = userInputHistory s @ textChunk
                                 in s\<lparr>userInputHistory := drop (length h - MAX_HISTORY_LENGTH) h\<rparr>)
                    in (case outputTranscription sc of
                          None \<Rightarrow> a
                        | Some textChunk \<Rightarrow>
                            let h = translationHistory a @ textChunk
                            in a\<lparr>translationHistory := drop (length h - MAX_HISTORY_LENGTH) h\<rparr>))
      in case inlineAudio message of
           Inl e \<Rightarrow> (Some e, s1)
         | Inr None \<Rightarrow> (None, s1)
         | Inr (Some base64Audio) \<Rightarrow>
             if base64Audio = [] then (None, s1)
             else
               (case decode base64Audio of
                  Inl e \<Rightarrow> (Some e, s1)
                | Inr audioData \<Rightarrow>
                    (case (case outputAudioContextRef s1 of
                             None \<Rightarrow> if odd (length audioData) then Inl RangeError else Inl TypeError
                           | Some ctx \<Rightarrow> decodeAudioData audioData ctx 24000 1) of
                       Inl e \<Rightarrow> (Some e, s1)
                     | Inr audioBuffer \<Rightarrow>
                         let sourceNode = \<lparr>sourceId = fresh s1, buffer = audioBuffer,
                                           playbackRate = 1\<rparr>;
                             startAt = max (nextStartTimeRef s1) currentTime
                         in (None,
                             s1\<lparr>effects := effects s1 @ [StartSource sourceNode startAt],
                                fresh := Suc (fresh s1),
                                nextStartTimeRef := startAt + duration audioBuffer\<rparr>))))"





text \<open>
  A run of a handler over the messages of a session, each with the reading of the clock
  at its arrival. A handler that throws rejects its own promise only; the next message is
  handled from the state it left.
\<close>

fun handleServerMessages :: "(real \<times> LiveServerMessage) list \<Rightarrow> ScriptState \<Rightarrow> ScriptState" where
  "handleServerMessages [] s = s"
| "handleServerMessages ((currentTime, message) # rest) s =
     handleServerMessages rest (snd (handleServerMessage currentTime message s))"

fun onMessages :: "(real \<times> LiveServerMessage) list \<Rightarrow> AppState \<Rightarrow> AppState" where
  "onMessages [] s = s"
| "onMessages ((currentTime, message) # rest) s =
     onMessages rest (snd (onMessage currentTime message s))"

text \<open>
  The calls \<open>source.start(when)\<close> that a list of effects holds, in order: the start
  time and the source. \<open>spaced rate\<close> says of such a list that the start times do
  not decrease and that every start is at least the previous start plus the duration of
  the previous buffer divided by \<open>rate\<close>.
\<close>

fun starts :: "effect list \<Rightarrow> (real \<times> AudioBufferSourceNode) list" where
  "starts [] = []"
| "starts (StartSource source when # es) = (when, source) # starts es"
| "starts (e # es) = starts es"

definition spaced :: "real \<Rightarrow> (real \<times> AudioBufferSourceNode) list \<Rightarrow> bool" where
  "spaced rate st \<longleftrightarrow>
     (\<forall>i. Suc i < length st \<longrightarrow>
        fst (st ! i) \<le> fst (st ! Suc i)
        \<and> fst (st ! i) + duration (buffer (snd (st ! i))) / rate \<le> fst (st ! Suc i))"








section \<open>Facts about the transport encoding\<close>



lemma index_of_nth: "distinct xs \<Longrightarrow> i < length xs \<Longrightarrow> index_of xs (xs ! i) = Some i"
proof (induction xs arbitrary: i)
  case Nil then show ?case by simp
next
  case (Cons x xs)
  show ?case
  proof (cases i)
    case 0 then show ?thesis by simp
  next
    case (Suc j)
    with Cons.prems have "xs ! j \<in> set xs" "x \<notin> set xs" by auto
    then have "x \<noteq> xs ! j" by auto
    with Cons Suc show ?thesis by simp
  qed
qed

lemma length_alphabet: "length base64_alphabet = 64"
  by (simp add: base64_alphabet_def)

lemma distinct_alphabet: "distinct base64_alphabet"
  by (simp add: base64_alphabet_def)

lemma char_sextet_sextet_char: "n < 64 \<Longrightarrow> char_sextet (sextet_char n) = Some n"
  unfolding char_sextet_def sextet_char_def
  by (rule index_of_nth) (simp_all add: distinct_alphabet length_alphabet)

lemma sextet_char_in: "n < 64 \<Longrightarrow> sextet_char n \<in> set base64_alphabet"
  unfolding sextet_char_def by (rule nth_mem) (simp add: length_alphabet)

lemma alphabet_not_pad: "c \<in> set base64_alphabet \<Longrightarrow> c \<noteq> CHR ''='' \<and> \<not> ascii_whitespace c"
  by (auto simp add: base64_alphabet_def ascii_whitespace_def)

lemma sextets_bound: "\<forall>b\<in>set bs. b < 256 \<Longrightarrow> \<forall>x\<in>set (sextets bs). x < 64"
  by (induction bs rule: sextets.induct) auto

lemma octets_sextets: "\<forall>b\<in>set bs. b < 256 \<Longrightarrow> octets (sextets bs) = bs"
proof (induction bs rule: sextets.induct)
  case (1 a b c rest)
  have "(a div 4) * 4 + ((a mod 4) * 16 + b div 16) div 16 = a" using 1(2) by auto
  moreover have "(((a mod 4) * 16 + b div 16) mod 16) * 16 + ((b mod 16) * 4 + c div 64) div 4 = b"
    using 1(2) by auto
  moreover have "(((b mod 16) * 4 + c div 64) mod 4) * 64 + c mod 64 = c" using 1(2) by auto
  ultimately show ?case using 1 by simp
next
  case (2 a b)
  then show ?case by auto
next
  case (3 a) then show ?case by auto
next
  case 4 then show ?case by simp
qed

lemma length_sextets: "length (sextets bs) = 4 * (length bs div 3) + (if length bs mod 3 = 0 then 0 else length bs mod 3 + 1)"
  by (induction bs rule: sextets.induct) auto


lemma strip_padding_encoded:
  assumes "\<forall>c\<in>set xs. c \<noteq> CHR ''=''" and "k \<le> 2" and "(length xs + k) mod 4 = 0"
  shows "strip_padding (xs @ replicate k (CHR ''='')) = xs"
proof -
  consider "k = 0" | "k = 1" | "k = 2" using assms(2) by linarith
  then show ?thesis
  proof cases
    case 1
    show ?thesis
    proof (cases "rev xs")
      case Nil then show ?thesis using 1 by (simp add: strip_padding_def)
    next
      case (Cons c1 r)
      then have "c1 \<in> set xs" by (metis list.set_intros(1) set_rev)
      then have ne: "c1 \<noteq> CHR ''=''" using assms(1) by blast
      show ?thesis using 1 Cons ne by (cases r) (simp_all add: strip_padding_def)
    qed
  next
    case 2
    have len: "length xs mod 4 = 3" using assms(3) 2 by presburger
    then obtain c2 r where r: "rev xs = c2 # r" by (cases "rev xs") auto
    then have "c2 \<in> set xs" by (metis list.set_intros(1) set_rev)
    then have ne: "c2 \<noteq> CHR ''=''" using assms(1) by blast
    have "xs = rev (c2 # r)" using r by (metis rev_rev_ident)
    then show ?thesis using 2 r ne assms(3) by (simp add: strip_padding_def)
  next
    case 3
    then show ?thesis using assms(3) by (simp add: strip_padding_def numeral_2_eq_2)
  qed
qed

lemma length_btoa_mod4: "(length (sextets bs) + (3 - length bs mod 3) mod 3) mod 4 = 0"
proof -
  have "length bs mod 3 = 0 \<or> length bs mod 3 = 1 \<or> length bs mod 3 = 2" by presburger
  then show ?thesis by (auto simp add: length_sextets)
qed

lemma length_sextets_mod4: "length (sextets bs) mod 4 \<noteq> 1"
proof -
  have "length bs mod 3 = 0 \<or> length bs mod 3 = 1 \<or> length bs mod 3 = 2" by presburger
  then show ?thesis by (auto simp add: length_sextets)
qed

lemma those_map_Some: "\<forall>x\<in>set xs. f x = Some (g x) \<Longrightarrow> those (map f xs) = Some (map g xs)"
  by (induction xs) auto

lemma atob_btoa: "atob (btoa s) = Inr s"
proof -
  let ?bs = "map of_char s :: nat list"
  let ?sx = "sextets ?bs"
  let ?cs = "map sextet_char ?sx"
  have bytes: "\<forall>b\<in>set ?bs. b < 256" by auto
  have sx: "\<forall>x\<in>set ?sx. x < 64" using sextets_bound [OF bytes] .
  have cs: "\<forall>c\<in>set ?cs. c \<noteq> CHR ''='' \<and> \<not> ascii_whitespace c"
    using sx sextet_char_in alphabet_not_pad by auto
  have nows: "filter (\<lambda>c. \<not> ascii_whitespace c) (btoa s) = btoa s"
    using cs by (auto simp add: btoa_def padding_def ascii_whitespace_def filter_id_conv)
  have strip: "strip_padding (btoa s) = ?cs"
    unfolding btoa_def padding_def
    by (rule strip_padding_encoded) (use cs length_btoa_mod4 [of ?bs] in auto)
  have th: "those (map char_sextet ?cs) = Some ?sx"
    using those_map_Some [of ?cs char_sextet "\<lambda>c. the (char_sextet c)"] sx
    by (simp add: char_sextet_sextet_char comp_def map_idI)
  have "octets ?sx = ?bs" by (rule octets_sextets [OF bytes])
  moreover have "map char_of ?bs = s" by (simp add: comp_def)
  moreover have "length ?cs mod 4 \<noteq> 1" using length_sextets_mod4 [of ?bs] by simp
  ultimately show ?thesis
    unfolding atob_def Let_def nows strip th by simp
qed

lemma fromCharCode_loop: "foldl (\<lambda>binary b. binary @ [f b]) acc bytes = acc @ map f bytes"
  by (induction bytes arbitrary: acc) auto

lemma decode_encode: "decode (encode bytes) = Inr bytes"
proof -
  have "map (\<lambda>c. word_of_nat (of_char c)) (map (\<lambda>b. char_of (unat b)) bytes) = bytes" (is "?l = _")
  proof -
    have "(word_of_nat (of_char (char_of (unat b) :: char)) :: 8 word) = b" for b :: "8 word"
    proof -
      have "unat b < 256" using unsigned_less [of b] by simp
      then show ?thesis by simp
    qed
    then show ?thesis by (simp add: comp_def map_idI)
  qed
  then show ?thesis by (simp add: decode_def encode_def fromCharCode_loop atob_btoa)
qed



lemma int16_join: "(ucast (ucast w :: 8 word) :: 16 word) OR push_bit 8 (ucast (ucast (drop_bit 8 w) :: 8 word)) = (w :: 16 word)"
  by (rule bit_word_eqI) (auto simp add: bit_simps)

lemma int16_view_bytes: "int16_view (concat (map int16_bytes ws)) = ws"
  by (induction ws) (simp_all add: int16_bytes_def int16_join)

lemma length_int16_bytes: "length (concat (map int16_bytes ws)) = 2 * length ws"
  by (induction ws) (simp_all add: int16_bytes_def)

lemma length_int16_view: "length (int16_view bs) = length bs div 2"
  by (induction bs rule: int16_view.induct) simp_all

lemma fill_channel_length: "length (fill_channel d n c k cd) = length cd"
  unfolding fill_channel_def
proof (induction k arbitrary: cd)
  case 0 show ?case by simp
next
  case (Suc k) show ?case using Suc[of cd] by simp
qed

lemma fill_channel_nth:
  "i < length cd \<Longrightarrow> fill_channel d n c k cd ! i = (if i < k then int16_at d (i * n + c) else cd ! i)"
proof (induction k)
  case 0 then show ?case by (simp add: fill_channel_def)
next
  case (Suc k)
  have step: "fill_channel d n c (Suc k) cd = (fill_channel d n c k cd)[k := int16_at d (k * n + c)]"
    by (simp add: fill_channel_def)
  show ?case using Suc by (auto simp add: step nth_list_update fill_channel_length less_Suc_eq)
qed

lemma trunc_error: "\<bar>real_of_int (trunc r) - r\<bar> < 1"
proof (cases "0 \<le> r")
  case True
  then show ?thesis unfolding trunc_def by simp linarith
next
  case False
  then show ?thesis unfolding trunc_def by simp linarith
qed

lemma trunc_bound: "\<bar>r\<bar> < real_of_int n \<Longrightarrow> \<bar>trunc r\<bar> < n"
proof (cases "0 \<le> r")
  case True
  assume "\<bar>r\<bar> < real_of_int n"
  with True show ?thesis unfolding trunc_def by simp linarith
next
  case False
  assume "\<bar>r\<bar> < real_of_int n"
  with False show ?thesis unfolding trunc_def by simp linarith
qed

lemma sint_ToInt16: "\<bar>r\<bar> < 32768 \<Longrightarrow> sint (ToInt16 (Num r)) = trunc r"
proof -
  assume "\<bar>r\<bar> < 32768"
  then have "\<bar>trunc r\<bar> < 32768" using trunc_bound [of r 32768] by simp
  then have "signed_take_bit 15 (trunc r) = trunc r"
    by (intro signed_take_bit_int_eq_self) simp_all
  then show ?thesis
    unfolding ToInt16_def by (simp add: sint_sbintrunc')
qed


lemma ToUint32_js_divide: "0 < n \<Longrightarrow> ToUint32 (js_divide len n) = len div n"
proof -
  assume n: "0 < n"
  have "\<lfloor>real len / real n\<rfloor> = int (len div n)"
    by (simp add: floor_divide_of_nat_eq)
  then show ?thesis using n by (simp add: ToUint32_def js_divide_def trunc_def)
qed

lemma iterations_js_divide: "0 < n \<Longrightarrow> len div n \<le> iterations (js_divide len n)"
proof -
  assume n: "0 < n"
  have "\<lfloor>real len / real n\<rfloor> = int (len div n)"
    by (simp add: floor_divide_of_nat_eq)
  moreover have "\<lfloor>real len / real n\<rfloor> \<le> \<lceil>real len / real n\<rceil>" by (rule floor_le_ceiling)
  ultimately show ?thesis using n by (simp add: iterations_def js_divide_def)
qed

lemma frame_index_in_range:
  assumes "0 < n" "c < n" "i < len div n"
  shows "i * n + c < (len :: nat)"
proof -
  have "i * n + c < (i + 1) * n" using assms(2) by simp
  also have "\<dots> \<le> (len div n) * n" using assms(3) by (intro mult_le_mono1) simp
  also have "\<dots> \<le> len" by simp
  finally show ?thesis .
qed

lemma fill_channel_planar:
  assumes "0 < n" "c < n" "m = length d div n" "m \<le> k"
  shows "fill_channel d n c k (replicate m (Num 0)) = planar d n c"
proof (rule nth_equalityI)
  show "length (fill_channel d n c k (replicate m (Num 0))) = length (planar d n c)"
    using assms by (simp add: fill_channel_length planar_def)
next
  fix i assume "i < length (fill_channel d n c k (replicate m (Num 0)))"
  then have i: "i < m" by (simp add: fill_channel_length)
  then have "i * n + c < length d" using frame_index_in_range [of n c i "length d"] assms by simp
  then show "fill_channel d n c k (replicate m (Num 0)) ! i = planar d n c ! i"
    using i assms by (simp add: fill_channel_nth planar_def int16_at_def)
qed

lemma decodeAudioData_eq:
  "decodeAudioData bytes ctx rate numChannels =
     (if odd (length bytes) then Inl RangeError
      else if numChannels = 0 \<or> maxNumberOfChannels ctx < numChannels
              \<or> length bytes div 2 div numChannels = 0
              \<or> rate < minSampleRate ctx \<or> maxSampleRate ctx < rate
        then Inl NotSupportedError
      else Inr \<lparr>frames = length bytes div 2 div numChannels, sampleRate = rate,
                channelData = map (planar (int16_view bytes) numChannels) [0..<numChannels]\<rparr>)"
proof (cases "odd (length bytes)")
  case True then show ?thesis by (simp add: decodeAudioData_def)
next
  case even: False
  show ?thesis
  proof (cases "numChannels = 0")
    case True
    then show ?thesis using even by (simp add: decodeAudioData_def createBuffer_def Let_def)
  next
    case False
    then have n: "0 < numChannels" by simp
    let ?d = "int16_view bytes"
    let ?m = "length ?d div numChannels"
    have len: "length ?d = length bytes div 2" by (rule length_int16_view)
    have u: "ToUint32 (js_divide (length ?d) numChannels) = ?m" using n by (rule ToUint32_js_divide)
    have it: "?m \<le> iterations (js_divide (length ?d) numChannels)" using n by (rule iterations_js_divide)
    have fill: "map (\<lambda>channel. fill_channel ?d numChannels channel (iterations (js_divide (length ?d) numChannels))
                       (replicate numChannels (replicate ?m (Num 0)) ! channel)) [0..<numChannels]
                = map (planar ?d numChannels) [0..<numChannels]"
      using n it by (intro map_cong refl) (simp add: fill_channel_planar)
    show ?thesis using even n
      by (simp add: decodeAudioData_def createBuffer_def Let_def u fill) (simp add: len)
  qed
qed


lemma createBlob_bytes:
  "decode (data (createBlob samples)) = Inr (concat (map (\<lambda>x. int16_bytes (ToInt16 (times32768 x))) samples))"
  by (simp add: createBlob_def decode_encode comp_def)

lemma planar_mono: "planar ws (Suc 0) 0 = map (\<lambda>w. Num (real_of_int (sint w) / 32768)) ws"
  by (rule nth_equalityI) (simp_all add: planar_def)

lemma quantization_error:
  assumes "\<bar>r\<bar> \<le> 999 / 1000"
  shows "\<bar>real_of_int (sint (ToInt16 (times32768 (Num r)))) / 32768 - r\<bar> \<le> 1 / 32768"
proof -
  have b: "\<bar>r * 32768\<bar> < 32768" using assms by (simp add: abs_mult)
  have "\<bar>real_of_int (trunc (r * 32768)) - r * 32768\<bar> < 1" by (rule trunc_error)
  then have "\<bar>real_of_int (trunc (r * 32768)) / 32768 - r\<bar> < 1 / 32768"
    by (simp add: abs_if field_simps split: if_splits)
  then show ?thesis using sint_ToInt16 [OF b] by (simp add: times32768_def)
qed

lemma int16_bytes_little_endian:
  "unat (int16_bytes w ! 0) = unat w mod 256 \<and> unat (int16_bytes w ! 1) = unat w div 256"
proof -
  have "unat (ucast w :: 8 word) = unat w mod 256"
    by (simp add: unsigned_ucast_eq take_bit_eq_mod)
  moreover have "unat (ucast (drop_bit 8 w) :: 8 word) = unat w div 256"
  proof -
    have "unat w < 65536" using unsigned_less [of w] by simp
    then have "unat w div 256 < 256" by simp
    then show ?thesis
      by (simp add: unsigned_ucast_eq take_bit_eq_mod unat_drop_bit_eq drop_bit_eq_div unat_div)
  qed
  ultimately show ?thesis by (simp add: int16_bytes_def)
qed

lemma sint_wrap: "sint (ToInt16 (times32768 (Num r))) = signed_take_bit 15 (trunc (r * 32768))"
  by (simp add: ToInt16_def times32768_def sint_sbintrunc')

lemma sint_in_range:
  assumes "- 1 \<le> r" "r < 1"
  shows "sint (ToInt16 (times32768 (Num r))) = trunc (r * 32768)"
proof -
  have b: "- 32768 \<le> r * 32768" "r * 32768 < 32768" using assms by simp_all
  have "- 32768 \<le> trunc (r * 32768)"
    using b(1) unfolding trunc_def by (simp add: le_floor_iff le_ceiling_iff)
  moreover have "trunc (r * 32768) < 32768"
    using b(2) unfolding trunc_def by (simp add: floor_less_iff ceiling_less_iff)
  ultimately have "signed_take_bit 15 (trunc (r * 32768)) = trunc (r * 32768)"
    by (intro signed_take_bit_int_eq_self) simp_all
  then show ?thesis by (simp add: sint_wrap)
qed

lemma full_scale:
  "int16_at [ToInt16 (times32768 (Num (- 1)))] 0 = Num (- 1)"
  "int16_at [ToInt16 (times32768 (Num 1))] 0 = Num (- 1)"
  by (simp_all add: int16_at_def ToInt16_def times32768_def trunc_def)

section \<open>The claims about the codec\<close>

text \<open>
  Claim C10. For every byte array \<open>b\<close>, of any length and the empty one included,
  \<open>decode (encode b)\<close> returns \<open>b\<close>: the base64 transport encoding followed by the
  transport decoding is the identity.
\<close>

theorem transport_round_trip: "decode (encode b) = Inr b"
  by (rule decode_encode)

theorem transport_round_trip_witness: "decode (encode [1, 2, 255, 0]) = Inr [1, 2, 255, 0]"
  using transport_round_trip [of "[1, 2, 255, 0]"] by simp

text \<open>
  Claim C1, as the code has it. For every non-empty array of samples with each value in
  \<open>[-0.999, 0.999]\<close>, on an audio context that supports one channel and the sample
  rate, \<open>createBlob\<close> followed by \<open>decode\<close> and \<open>decodeAudioData\<close> with one channel
  yields a buffer whose single channel has the length of the input and whose \<open>i\<close>-th
  element differs from the \<open>i\<close>-th sample by at most \<open>1/32768\<close>. The empty array
  is excluded: \<open>createBuffer\<close> rejects a buffer of zero frames.
\<close>

theorem codec_round_trip:
  assumes "samples \<noteq> []"
    and "\<forall>x\<in>set samples. \<exists>r. x = Num r \<and> - (999 / 1000) \<le> r \<and> r \<le> 999 / 1000"
    and "1 \<le> maxNumberOfChannels ctx" and "minSampleRate ctx \<le> rate" and "rate \<le> maxSampleRate ctx"
  shows "\<exists>bytes audioBuffer out.
           decode (data (createBlob samples)) = Inr bytes
         \<and> decodeAudioData bytes ctx rate 1 = Inr audioBuffer
         \<and> channelData audioBuffer = [out]
         \<and> length out = length samples
         \<and> (\<forall>i<length samples. \<exists>r q. samples ! i = Num r \<and> out ! i = Num q
                \<and> \<bar>q - r\<bar> \<le> 1 / 32768)"
proof -
  let ?ws = "map (\<lambda>x. ToInt16 (times32768 x)) samples"
  let ?bytes = "concat (map int16_bytes ?ws)"
  let ?out = "map (\<lambda>w. Num (real_of_int (sint w) / 32768)) ?ws"
  have dec: "decode (data (createBlob samples)) = Inr ?bytes"
    by (simp add: createBlob_bytes comp_def)
  have len: "length ?bytes = 2 * length samples" by (simp only: length_int16_bytes length_map)
  have view: "int16_view ?bytes = ?ws" by (rule int16_view_bytes)
  have "decodeAudioData ?bytes ctx rate 1 =
          Inr \<lparr>frames = length samples, sampleRate = rate, channelData = [?out]\<rparr>"
    unfolding decodeAudioData_eq using assms(1,3,4,5) len
    by (simp add: view planar_mono del: map_map)
  moreover have "\<exists>r q. samples ! i = Num r \<and> ?out ! i = Num q \<and> \<bar>q - r\<bar> \<le> 1 / 32768"
    if "i < length samples" for i
  proof -
    from that assms(2) obtain r where r: "samples ! i = Num r" "\<bar>r\<bar> \<le> 999 / 1000"
      by (metis abs_le_iff minus_le_iff nth_mem)
    have "?out ! i = Num (real_of_int (sint (ToInt16 (times32768 (Num r)))) / 32768)"
      using that r(1) by simp
    with r(1) quantization_error [OF r(2)] show ?thesis by blast
  qed
  ultimately show ?thesis using dec by (intro exI [of _ ?bytes] exI [of _ ?out] exI) auto
qed

theorem codec_round_trip_witness:
  "\<exists>bytes audioBuffer out.
       decode (data (createBlob [Num (1 / 2), Num (- (999 / 1000))])) = Inr bytes
     \<and> decodeAudioData bytes
           \<lparr>contextId = 0, state = Running, maxNumberOfChannels = 32,
            minSampleRate = 8000, maxSampleRate = 96000\<rparr> 24000 1 = Inr audioBuffer
     \<and> channelData audioBuffer = [out]
     \<and> length out = 2
     \<and> (\<exists>q. out ! 1 = Num q \<and> \<bar>q - (- (999 / 1000))\<bar> \<le> 1 / 32768)"
proof -
  let ?s = "[Num (1 / 2), Num (- (999 / 1000))]"
  let ?ctx = "\<lparr>contextId = 0, state = Running, maxNumberOfChannels = 32,
            minSampleRate = 8000, maxSampleRate = 96000\<rparr>"
  have h1: "?s \<noteq> []" by simp
  have h2: "\<forall>x\<in>set ?s. \<exists>r. x = Num r \<and> - (999 / 1000) \<le> r \<and> r \<le> 999 / 1000"
    by (simp add: exI [of _ "1 / 2"])
  have h3: "1 \<le> maxNumberOfChannels ?ctx" "minSampleRate ?ctx \<le> 24000" "24000 \<le> maxSampleRate ?ctx"
    by simp_all
  from codec_round_trip [OF h1 h2 h3] obtain bytes audioBuffer out where
    r: "decode (data (createBlob ?s)) = Inr bytes" "decodeAudioData bytes ?ctx 24000 1 = Inr audioBuffer"
       "channelData audioBuffer = [out]" "length out = length ?s"
       "\<forall>i<length ?s. \<exists>r q. ?s ! i = Num r \<and> out ! i = Num q \<and> \<bar>q - r\<bar> \<le> 1 / 32768"
    by blast
  have "(1::nat) < length ?s" by simp
  with r(5) have "\<exists>r q. ?s ! 1 = Num r \<and> out ! 1 = Num q \<and> \<bar>q - r\<bar> \<le> 1 / 32768" by blast
  then have "\<exists>q. out ! 1 = Num q \<and> \<bar>q - (- (999 / 1000))\<bar> \<le> 1 / 32768" by simp
  with r(1-4) show ?thesis by (intro exI [of _ bytes] exI [of _ audioBuffer] exI [of _ out]) simp
qed

text \<open>
  The claim as stated fails at the empty array: it encodes to no bytes, and
  \<open>decodeAudioData\<close> then throws instead of yielding an array of length 0.
\<close>

theorem codec_round_trip_counterexample:
  "decode (data (createBlob [])) = Inr []
   \<and> decodeAudioData []
         \<lparr>contextId = 0, state = Running, maxNumberOfChannels = 32,
          minSampleRate = 8000, maxSampleRate = 96000\<rparr> 24000 1 = Inl NotSupportedError"
  by (simp add: createBlob_bytes decodeAudioData_eq)

text \<open>
  Claim C4, as the code has it. The encoder stores, for every finite sample \<open>r\<close>, the
  16-bit two's complement value of \<open>r * 32768\<close> truncated toward zero (not rounded to
  the nearest integer), low byte first; for \<open>-1 \<le> r < 1\<close> that value is the truncation
  itself, within 1 of \<open>r * 32768\<close>. The sample \<open>-1\<close> decodes to \<open>-1\<close> again, the
  sample \<open>1\<close> wraps and decodes to \<open>-1\<close>, and the blob carries the fixed MIME string
  \<open>audio/pcm;rate=16000\<close>; \<open>createAudioBlobForLive\<close> does the same.
\<close>

theorem encode_quantization:
  "decode (data (createBlob samples)) =
     Inr (concat (map (\<lambda>x. int16_bytes (ToInt16 (times32768 x))) samples))
   \<and> mimeType (createBlob samples) = ''audio/pcm;rate=16000''
   \<and> createAudioBlobForLive samples = createBlob samples
   \<and> sint (ToInt16 (times32768 (Num r))) = signed_take_bit 15 (trunc (r * 32768))
   \<and> (- 1 \<le> r \<and> r < 1 \<longrightarrow> sint (ToInt16 (times32768 (Num r))) = trunc (r * 32768))
   \<and> \<bar>real_of_int (trunc (r * 32768)) - r * 32768\<bar> < 1
   \<and> unat (int16_bytes w ! 0) = unat w mod 256 \<and> unat (int16_bytes w ! 1) = unat w div 256
   \<and> int16_at [ToInt16 (times32768 (Num (- 1)))] 0 = Num (- 1)
   \<and> int16_at [ToInt16 (times32768 (Num 1))] 0 = Num (- 1)"
proof (intro conjI impI)
  show "decode (data (createBlob samples)) =
     Inr (concat (map (\<lambda>x. int16_bytes (ToInt16 (times32768 x))) samples))"
    by (rule createBlob_bytes)
  show "mimeType (createBlob samples) = ''audio/pcm;rate=16000''"
    by (simp add: createBlob_def)
  show "createAudioBlobForLive samples = createBlob samples"
    by (simp add: createBlob_def createAudioBlobForLive_def)
  show "sint (ToInt16 (times32768 (Num r))) = signed_take_bit 15 (trunc (r * 32768))"
    by (rule sint_wrap)
  show "sint (ToInt16 (times32768 (Num r))) = trunc (r * 32768)" if "- 1 \<le> r \<and> r < 1"
    using that by (simp add: sint_in_range)
  show "\<bar>real_of_int (trunc (r * 32768)) - r * 32768\<bar> < 1" by (rule trunc_error)
  show "unat (int16_bytes w ! 0) = unat w mod 256" "unat (int16_bytes w ! 1) = unat w div 256"
    using int16_bytes_little_endian [of w] by simp_all
  show "int16_at [ToInt16 (times32768 (Num (- 1)))] 0 = Num (- 1)"
    "int16_at [ToInt16 (times32768 (Num 1))] 0 = Num (- 1)"
    by (rule full_scale)+
qed

theorem encode_quantization_witness:
  "sint (ToInt16 (times32768 (Num (7 / 131072)))) = trunc (7 / 131072 * 32768)
   \<and> trunc (7 / 131072 * 32768) = 1
   \<and> mimeType (createBlob [Num (7 / 131072)]) = ''audio/pcm;rate=16000''
   \<and> decode (data (createBlob [Num (7 / 131072)])) = Inr [1, 0]"
proof -
  have t: "trunc (7 / 131072 * 32768) = 1" by (simp add: trunc_def)
  have w: "ToInt16 (times32768 (Num (7 / 131072))) = 1"
    by (simp add: ToInt16_def times32768_def trunc_def)
  show ?thesis
    using encode_quantization [of "[Num (7 / 131072)]" "7 / 131072" 0] t
    by (simp add: w int16_bytes_def)
qed

text \<open>
  The claim as stated fails where truncation and rounding differ: the sample
  \<open>7/131072\<close>, for which \<open>r * 32768 = 1.75\<close>, is stored as 1, and rounds to 2.
\<close>

theorem encode_quantization_counterexample:
  "sint (ToInt16 (times32768 (Num (7 / 131072)))) = 1 \<and> round (7 / 131072 * 32768 :: real) = 2"
  by (simp add: ToInt16_def times32768_def trunc_def round_def)

text \<open>
  Claim C8, as the code has it. \<open>decodeAudioData\<close> checks no length itself. It fails
  with RangeError, from the \<open>Int16Array\<close> constructor, exactly when the number of bytes
  is odd, and with NotSupportedError, from \<open>createBuffer\<close>, when the number of channels
  is zero or above the limit, when there are fewer samples than channels, or when the
  rate is outside the supported range. Otherwise it succeeds and returns as many planar
  arrays as there are channels, each of the number of samples divided by the number of
  channels, rounded down: the samples of an incomplete last frame are dropped.
\<close>

theorem decodeAudioData_outcome:
  "decodeAudioData bytes ctx rate numChannels =
     (if odd (length bytes) then Inl RangeError
      else if numChannels = 0 \<or> maxNumberOfChannels ctx < numChannels
              \<or> length bytes div 2 div numChannels = 0
              \<or> rate < minSampleRate ctx \<or> maxSampleRate ctx < rate
        then Inl NotSupportedError
      else Inr \<lparr>frames = length bytes div 2 div numChannels, sampleRate = rate,
                channelData = map (planar (int16_view bytes) numChannels) [0..<numChannels]\<rparr>)"
  by (rule decodeAudioData_eq)

theorem decodeAudioData_outcome_witness:
  "decodeAudioData [1, 0, 2, 0, 3, 0, 255, 255]
     \<lparr>contextId = 0, state = Running, maxNumberOfChannels = 32,
      minSampleRate = 8000, maxSampleRate = 96000\<rparr> 24000 2
   = Inr \<lparr>frames = 2, sampleRate = 24000,
          channelData = [[Num (1 / 32768), Num (3 / 32768)],
                         [Num (2 / 32768), Num (- 1 / 32768)]]\<rparr>"
  using decodeAudioData_outcome [of "[1, 0, 2, 0, 3, 0, 255, 255]"
      "\<lparr>contextId = 0, state = Running, maxNumberOfChannels = 32,
        minSampleRate = 8000, maxSampleRate = 96000\<rparr>" 24000 2]
  by (simp add: planar_def upt_conv_Cons)

text \<open>
  The claim as stated fails at six bytes and two channels: six is not a multiple of four,
  and the call succeeds, with one frame per channel and the third sample dropped.
\<close>

theorem decodeAudioData_counterexample:
  "decodeAudioData [1, 0, 2, 0, 3, 0]
     \<lparr>contextId = 0, state = Running, maxNumberOfChannels = 32,
      minSampleRate = 8000, maxSampleRate = 96000\<rparr> 24000 2
   = Inr \<lparr>frames = 1, sampleRate = 24000,
          channelData = [[Num (1 / 32768)], [Num (2 / 32768)]]\<rparr>"
  by (simp add: decodeAudioData_eq planar_def upt_conv_Cons)

section \<open>Facts about the message handlers\<close>

text \<open>A decoded buffer has the rate it was asked for, so its duration is not negative.\<close>

lemma decodeAudioData_buffer:
  "decodeAudioData bytes ctx rate n = Inr b \<Longrightarrow>
     sampleRate b = rate \<and> frames b = length bytes div 2 div n"
  unfolding decodeAudioData_eq by (auto split: if_splits)

lemma decoded_duration_nonneg:
  "decodeAudioData bytes ctx 24000 n = Inr b \<Longrightarrow> 0 \<le> duration b"
  using decodeAudioData_buffer [of bytes ctx 24000 n b] by (simp add: duration_def)

lemma handleTranscriptions_keeps:
  "nextStartTime (handleTranscriptions message s) = nextStartTime s"
  "outputSources (handleTranscriptions message s) = outputSources s"
  "effects (handleTranscriptions message s) = effects s"
  "fresh (handleTranscriptions message s) = fresh s"
  "outputAudioContext (handleTranscriptions message s) = outputAudioContext s"
  by (simp_all add: handleTranscriptions_def Let_def split: option.splits)

lemma inlineAudio_no_modelTurn: "modelTurn sc = None \<Longrightarrow> inlineAudio (Some sc) = Inr None"
  by (simp add: inlineAudio_def)

lemma handleAudioOutput_no_audio:
  "inlineAudio message = Inr None \<Longrightarrow> handleAudioOutput currentTime message s = (None, s)"
  by (simp add: handleAudioOutput_def)

lemma handleAudioOutput_cursor:
  "nextStartTime s \<le> nextStartTime (snd (handleAudioOutput currentTime message s))"
  by (auto simp add: handleAudioOutput_def Let_def
      split: sum.splits option.splits dest!: decoded_duration_nonneg
      intro: order_trans [OF max.cobounded1])

lemma handleAudioOutput_effects:
  assumes "handleAudioOutput currentTime message s = (r, s1)"
  shows "(effects s1 = effects s \<and> outputSources s1 = outputSources s)
       \<or> (\<exists>audioBuffer. r = None \<and> 0 \<le> duration audioBuffer
            \<and> effects s1 = effects s @
                 [StartSource \<lparr>sourceId = fresh s, buffer = audioBuffer, playbackRate = 9646899 / 8388608\<rparr>
                    (max (nextStartTime s) currentTime)]
            \<and> outputSources s1 = outputSources s @
                 [\<lparr>sourceId = fresh s, buffer = audioBuffer, playbackRate = 9646899 / 8388608\<rparr>]
            \<and> nextStartTime s1 = max (nextStartTime s) currentTime + duration audioBuffer / (9646899 / 8388608))"
  using assms
  by (auto simp add: handleAudioOutput_def Let_def decoded_duration_nonneg
      split: sum.splits option.splits if_splits)

lemma handleInterruption_interrupted:
  "interrupted sc \<Longrightarrow>
     handleInterruption (Some sc) s =
       s\<lparr>effects := effects s @ map StopSource (outputSources s), outputSources := [],
          nextStartTime := 0\<rparr>"
  by (simp add: handleInterruption_def)

lemma handleServerMessage_cursor:
  assumes "\<forall>sc. message = Some sc \<longrightarrow> \<not> interrupted sc"
  shows "nextStartTime s \<le> nextStartTime (snd (handleServerMessage currentTime message s))"
proof -
  let ?s0 = "handleTranscriptions message s"
  obtain r s1 where h: "handleAudioOutput currentTime message ?s0 = (r, s1)"
    by (cases "handleAudioOutput currentTime message ?s0")
  have a: "nextStartTime s \<le> nextStartTime s1"
    using handleAudioOutput_cursor [of ?s0 currentTime message] h
    by (simp add: handleTranscriptions_keeps)
  have "handleInterruption message s1 = s1"
    using assms by (cases message) (simp_all add: handleInterruption_def)
  then show ?thesis using a h
    by (cases r) (simp_all add: handleServerMessage_def)
qed


lemma handleServerMessage_effects:
  assumes "\<forall>sc. message = Some sc \<longrightarrow> \<not> interrupted sc"
    and "handleServerMessage currentTime message s = (r, s')"
  shows "(effects s' = effects s \<and> nextStartTime s \<le> nextStartTime s')
       \<or> (\<exists>audioBuffer. 0 \<le> duration audioBuffer
            \<and> effects s' = effects s @
                 [StartSource \<lparr>sourceId = fresh s, buffer = audioBuffer, playbackRate = 9646899 / 8388608\<rparr>
                    (max (nextStartTime s) currentTime)]
            \<and> nextStartTime s' = max (nextStartTime s) currentTime + duration audioBuffer / (9646899 / 8388608))"
proof -
  let ?s0 = "handleTranscriptions message s"
  obtain r1 s1 where h: "handleAudioOutput currentTime message ?s0 = (r1, s1)"
    by (cases "handleAudioOutput currentTime message ?s0")
  have "handleInterruption message s1 = s1"
    using assms(1) by (cases message) (simp_all add: handleInterruption_def)
  then have s': "s' = s1" using assms(2) h by (cases r1) (simp_all add: handleServerMessage_def)
  have c: "nextStartTime s \<le> nextStartTime s1"
    using handleAudioOutput_cursor [of ?s0 currentTime message] h
    by (simp add: handleTranscriptions_keeps)
  from handleAudioOutput_effects [OF h] c show ?thesis
    unfolding s' by (auto simp add: handleTranscriptions_keeps)
qed

lemma onMessage_cursor:
  "nextStartTimeRef a \<le> nextStartTimeRef (snd (onMessage currentTime message a))"
  by (auto simp add: onMessage_def Let_def
      split: sum.splits option.splits dest!: decoded_duration_nonneg
      intro: order_trans [OF max.cobounded1])

lemma onMessage_effects:
  assumes "onMessage currentTime message a = (r, a')"
  shows "(effects a' = effects a \<and> nextStartTimeRef a' = nextStartTimeRef a)
       \<or> (\<exists>audioBuffer. 0 \<le> duration audioBuffer
            \<and> effects a' = effects a @
                 [StartSource \<lparr>sourceId = fresh a, buffer = audioBuffer, playbackRate = 1\<rparr>
                    (max (nextStartTimeRef a) currentTime)]
            \<and> nextStartTimeRef a' = max (nextStartTimeRef a) currentTime + duration audioBuffer)"
  using assms
  by (auto simp add: onMessage_def Let_def decoded_duration_nonneg
      split: sum.splits option.splits if_splits)


text \<open>The payloads used in the examples: one silent sample, and a string that is not base64.\<close>

lemma decode_AAA: "decode ''AAA='' = Inr [0, 0]"
  by code_simp

lemma decode_A: "decode ''A'' = Inl InvalidCharacterError"
  by code_simp


text \<open>
  The invariant of a run: the starts are spaced, and the cursor is at or past the end of
  the last buffer.
\<close>

lemma starts_append: "starts (es @ es') = starts es @ starts es'"
  by (induction es rule: starts.induct) simp_all

lemma spaced_snoc:
  assumes "spaced rate st"
    and "st \<noteq> [] \<Longrightarrow> fst (last st) \<le> w \<and> fst (last st) + duration (buffer (snd (last st))) / rate \<le> w"
  shows "spaced rate (st @ [(w, source)])"
  unfolding spaced_def
proof (intro allI impI)
  fix i assume i: "Suc i < length (st @ [(w, source)])"
  show "fst ((st @ [(w, source)]) ! i) \<le> fst ((st @ [(w, source)]) ! Suc i)
        \<and> fst ((st @ [(w, source)]) ! i) + duration (buffer (snd ((st @ [(w, source)]) ! i))) / rate
            \<le> fst ((st @ [(w, source)]) ! Suc i)"
  proof (cases "Suc i < length st")
    case True
    then show ?thesis using assms(1) by (simp add: spaced_def nth_append)
  next
    case False
    with i have eq: "Suc i = length st" by simp
    then have ne: "st \<noteq> []" by auto
    have "st ! i = last st" using eq ne by (metis diff_Suc_1 last_conv_nth)
    then show ?thesis using assms(2) [OF ne] eq by (simp add: nth_append)
  qed
qed

lemma run_step:
  assumes "spaced rate st"
    and "st \<noteq> [] \<longrightarrow> fst (last st) \<le> c \<and> fst (last st) + duration (buffer (snd (last st))) / rate \<le> c"
    and "0 \<le> duration (buffer source)" and "0 < rate"
  shows "spaced rate (st @ [(max c t, source)])
       \<and> fst (last (st @ [(max c t, source)])) \<le> max c t + duration (buffer source) / rate
       \<and> fst (last (st @ [(max c t, source)]))
            + duration (buffer (snd (last (st @ [(max c t, source)])))) / rate
          \<le> max c t + duration (buffer source) / rate"
proof -
  have "spaced rate (st @ [(max c t, source)])"
    using assms(1,2) by (intro spaced_snoc) auto
  moreover have "0 \<le> duration (buffer source) / rate" using assms(3,4) by simp
  ultimately show ?thesis by simp
qed

lemma onMessages_invariant:
  assumes "spaced 1 (starts (effects a))"
    and "starts (effects a) \<noteq> [] \<longrightarrow>
           fst (last (starts (effects a))) \<le> nextStartTimeRef a
         \<and> fst (last (starts (effects a))) + duration (buffer (snd (last (starts (effects a))))) / 1
             \<le> nextStartTimeRef a"
  shows "spaced 1 (starts (effects (onMessages msgs a)))"
  using assms
proof (induction msgs arbitrary: a)
  case Nil
  then show ?case by simp
next
  case (Cons tm msgs)
  obtain t m where tm: "tm = (t, m)" by (cases tm)
  obtain r a' where h: "onMessage t m a = (r, a')" by (cases "onMessage t m a")
  from onMessage_effects [OF h]
  have "spaced 1 (starts (effects a'))
      \<and> (starts (effects a') \<noteq> [] \<longrightarrow>
           fst (last (starts (effects a'))) \<le> nextStartTimeRef a'
         \<and> fst (last (starts (effects a'))) + duration (buffer (snd (last (starts (effects a'))))) / 1
             \<le> nextStartTimeRef a')"
  proof (elim disjE exE conjE)
    assume "effects a' = effects a" "nextStartTimeRef a' = nextStartTimeRef a"
    then show ?thesis using Cons.prems by simp
  next
    fix audioBuffer
    assume d: "0 \<le> duration audioBuffer"
      and e: "effects a' = effects a @
                 [StartSource \<lparr>sourceId = fresh a, buffer = audioBuffer, playbackRate = 1\<rparr>
                    (max (nextStartTimeRef a) t)]"
      and n: "nextStartTimeRef a' = max (nextStartTimeRef a) t + duration audioBuffer"
    show ?thesis
      using run_step [of 1 "starts (effects a)" "nextStartTimeRef a"
          "\<lparr>sourceId = fresh a, buffer = audioBuffer, playbackRate = 1\<rparr>" t] Cons.prems d
      by (simp add: e n starts_append)
  qed
  then have "spaced 1 (starts (effects (onMessages msgs a')))"
    using Cons.IH [of a'] by blast
  then show ?case using tm h by simp
qed

lemma handleServerMessages_invariant:
  assumes "\<forall>tm\<in>set msgs. \<forall>sc. snd tm = Some sc \<longrightarrow> \<not> interrupted sc"
    and "spaced (9646899 / 8388608) (starts (effects s))"
    and "starts (effects s) \<noteq> [] \<longrightarrow>
           fst (last (starts (effects s))) \<le> nextStartTime s
         \<and> fst (last (starts (effects s)))
             + duration (buffer (snd (last (starts (effects s))))) / (9646899 / 8388608)
             \<le> nextStartTime s"
  shows "spaced (9646899 / 8388608) (starts (effects (handleServerMessages msgs s)))"
  using assms
proof (induction msgs arbitrary: s)
  case Nil
  then show ?case by simp
next
  case (Cons tm msgs)
  obtain t m where tm: "tm = (t, m)" by (cases tm)
  obtain r s' where h: "handleServerMessage t m s = (r, s')" by (cases "handleServerMessage t m s")
  have ni: "\<forall>sc. m = Some sc \<longrightarrow> \<not> interrupted sc" using Cons.prems(1) tm by simp
  from handleServerMessage_effects [OF ni h]
  have "spaced (9646899 / 8388608) (starts (effects s'))
      \<and> (starts (effects s') \<noteq> [] \<longrightarrow>
           fst (last (starts (effects s'))) \<le> nextStartTime s'
         \<and> fst (last (starts (effects s')))
             + duration (buffer (snd (last (starts (effects s'))))) / (9646899 / 8388608)
             \<le> nextStartTime s')"
  proof (elim disjE exE conjE)
    assume "effects s' = effects s" "nextStartTime s \<le> nextStartTime s'"
    then show ?thesis using Cons.prems(2,3) by auto
  next
    fix audioBuffer
    assume d: "0 \<le> duration audioBuffer"
      and e: "effects s' = effects s @
                 [StartSource \<lparr>sourceId = fresh s, buffer = audioBuffer, playbackRate = 9646899 / 8388608\<rparr>
                    (max (nextStartTime s) t)]"
      and n: "nextStartTime s' = max (nextStartTime s) t + duration audioBuffer / (9646899 / 8388608)"
    show ?thesis
      using run_step [of "9646899 / 8388608" "starts (effects s)" "nextStartTime s"
          "\<lparr>sourceId = fresh s, buffer = audioBuffer, playbackRate = 9646899 / 8388608\<rparr>" t]
        Cons.prems(2,3) d
      by (simp add: e n starts_append)
  qed
  moreover have "\<forall>tm\<in>set msgs. \<forall>sc. snd tm = Some sc \<longrightarrow> \<not> interrupted sc"
    using Cons.prems(1) by simp
  ultimately have "spaced (9646899 / 8388608) (starts (effects (handleServerMessages msgs s')))"
    using Cons.IH [of s'] by blast
  then show ?case using tm h by simp
qed

section \<open>The states and the runs used in the examples\<close>

lemma decodeAudioData_one_sample:
  "decodeAudioData [0, 0]
     \<lparr>contextId = i, state = Running, maxNumberOfChannels = 32,
      minSampleRate = 8000, maxSampleRate = 96000\<rparr> 24000 (Suc 0)
   = Inr \<lparr>frames = 1, sampleRate = 24000, channelData = [[Num 0]]\<rparr>"
  by (simp add: decodeAudioData_eq planar_def)

text \<open>
  The app after \<open>startRecording\<close> with a device selected, and the script after
  \<open>startSession\<close>, both with the session connected.
\<close>

lemma recording_state:
  "snd (startRecording
          \<lparr>contextId = 0, state = Running, maxNumberOfChannels = 32,
           minSampleRate = 8000, maxSampleRate = 96000\<rparr> None
          (initialAppState\<lparr>selectedDeviceId := ''default''\<rparr>))
   = \<lparr>effects = [Connect 6], fresh = 7,
      isRecording = True, selectedDeviceId = ''default'', error = None,
      userInputHistory = [], translationHistory = [],
      startRecOnFavClick = False,
      sessionPromiseRef = Some 6,
      inputAudioContextRef =
        Some \<lparr>contextId = 0, state = Running, maxNumberOfChannels = 32,
              minSampleRate = 8000, maxSampleRate = 96000\<rparr>,
      outputAudioContextRef =
        Some \<lparr>contextId = 1, state = Running, maxNumberOfChannels = 32,
              minSampleRate = 8000, maxSampleRate = 96000\<rparr>,
      mediaStreamSourceRef = Some (3, 2), scriptProcessorRef = Some 4,
      analyserNodeRef = Some 5,
      nextStartTimeRef = 0\<rparr>"
  by (simp add: startRecording_def initialAppState_def Let_def)

lemma session_state:
  "snd (startSession
          \<lparr>contextId = 0, state = Running, maxNumberOfChannels = 32,
           minSampleRate = 8000, maxSampleRate = 96000\<rparr> None (Resolved None) None
          initialState)
   = \<lparr>effects = [Connect 3], fresh = 6,
      session = Some 3, mediaStream = Some 0,
      inputAudioContext =
        Some \<lparr>contextId = 1, state = Running, maxNumberOfChannels = 32,
              minSampleRate = 8000, maxSampleRate = 96000\<rparr>,
      outputAudioContext =
        Some \<lparr>contextId = 2, state = Running, maxNumberOfChannels = 32,
              minSampleRate = 8000, maxSampleRate = 96000\<rparr>,
      scriptProcessor = Some 5, mediaStreamSource = Some 4,
      nextStartTime = 0, outputSources = [],
      currentInputTranscription = [], currentOutputTranscription = [],
      fullUserTranscript = [], fullModelTranscript = []\<rparr>"
  by (simp add: startSession_def initialState_def Let_def)

text \<open>
  Two buffers of one sample that arrive at clock 0, in the app and in the script.
\<close>

lemma app_run:
  "effects (onMessages
     [(0, Some \<lparr>inputTranscription = None, outputTranscription = None, turnComplete = False,
                 modelTurn = Some (Parts [Some ''AAA='']), interrupted = False\<rparr>),
      (0, Some \<lparr>inputTranscription = None, outputTranscription = None, turnComplete = False,
                 modelTurn = Some (Parts [Some ''AAA='']), interrupted = False\<rparr>)]
     (snd (startRecording
          \<lparr>contextId = 0, state = Running, maxNumberOfChannels = 32,
           minSampleRate = 8000, maxSampleRate = 96000\<rparr> None
          (initialAppState\<lparr>selectedDeviceId := ''default''\<rparr>))))
   = [Connect 6,
      StartSource \<lparr>sourceId = 7,
         buffer = \<lparr>frames = 1, sampleRate = 24000, channelData = [[Num 0]]\<rparr>,
         playbackRate = 1\<rparr> 0,
      StartSource \<lparr>sourceId = 8,
         buffer = \<lparr>frames = 1, sampleRate = 24000, channelData = [[Num 0]]\<rparr>,
         playbackRate = 1\<rparr> (1 / 24000)]"
  unfolding recording_state
  by (simp add: onMessage_def inlineAudio_def decode_AAA
      decodeAudioData_one_sample duration_def Let_def)

lemma script_run:
  "effects (handleServerMessages
     [(0, Some \<lparr>inputTranscription = None, outputTranscription = None, turnComplete = False,
                 modelTurn = Some (Parts [Some ''AAA='']), interrupted = False\<rparr>),
      (0, Some \<lparr>inputTranscription = None, outputTranscription = None, turnComplete = False,
                 modelTurn = Some (Parts [Some ''AAA='']), interrupted = False\<rparr>)]
     (snd (startSession
          \<lparr>contextId = 0, state = Running, maxNumberOfChannels = 32,
           minSampleRate = 8000, maxSampleRate = 96000\<rparr> None (Resolved None) None
          initialState)))
   = [Connect 3,
      StartSource \<lparr>sourceId = 6,
         buffer = \<lparr>frames = 1, sampleRate = 24000, channelData = [[Num 0]]\<rparr>,
         playbackRate = 9646899 / 8388608\<rparr> 0,
      StartSource \<lparr>sourceId = 7,
         buffer = \<lparr>frames = 1, sampleRate = 24000, channelData = [[Num 0]]\<rparr>,
         playbackRate = 9646899 / 8388608\<rparr> (1 / 24000 / (9646899 / 8388608))]"
  unfolding session_state
  by (simp add: handleServerMessage_def handleTranscriptions_def handleAudioOutput_def
      handleInterruption_def inlineAudio_def decode_AAA
      decodeAudioData_one_sample duration_def Let_def)



section \<open>Facts about starting and stopping\<close>

text \<open>
  An interruption that is handled to its end sets the cursor to 0.
\<close>

lemma handleServerMessage_reset:
  assumes "interrupted sc" and "fst (handleServerMessage currentTime (Some sc) s) = None"
  shows "nextStartTime (snd (handleServerMessage currentTime (Some sc) s)) = 0"
proof -
  let ?s0 = "handleTranscriptions (Some sc) s"
  obtain r s1 where h: "handleAudioOutput currentTime (Some sc) ?s0 = (r, s1)"
    by (cases "handleAudioOutput currentTime (Some sc) ?s0")
  from assms(2) have "r = None" using h by (cases r) (simp_all add: handleServerMessage_def)
  then show ?thesis
    using h assms(1) by (simp add: handleServerMessage_def handleInterruption_interrupted)
qed














section \<open>The claims about playback\<close>

text \<open>
  Claim C3, as the code has it. In a run of the app's handler that starts with nothing
  scheduled, whatever the readings of the clock, the start times do not decrease and
  every start is at least the previous start plus the duration of the previous buffer.
  In a run of the script's handler without an interruption the start times do not
  decrease either, and every start is at least the previous start plus the duration of
  the previous buffer divided by what \<open>source.playbackRate.value\<close> reads, the
  single-precision value of 1.15, which is \<open>9646899 / 8388608\<close>.
\<close>

theorem scheduler_monotone:
  "(starts (effects a) = [] \<longrightarrow> spaced 1 (starts (effects (onMessages msgs a))))
   \<and> (starts (effects s) = []
        \<and> (\<forall>tm\<in>set msgs. \<forall>sc. snd tm = Some sc \<longrightarrow> \<not> interrupted sc) \<longrightarrow>
      spaced (9646899 / 8388608) (starts (effects (handleServerMessages msgs s))))"
proof (intro conjI impI)
  assume "starts (effects a) = []"
  then show "spaced 1 (starts (effects (onMessages msgs a)))"
    by (intro onMessages_invariant) (simp_all add: spaced_def)
next
  assume "starts (effects s) = []
        \<and> (\<forall>tm\<in>set msgs. \<forall>sc. snd tm = Some sc \<longrightarrow> \<not> interrupted sc)"
  then show "spaced (9646899 / 8388608) (starts (effects (handleServerMessages msgs s)))"
    by (intro handleServerMessages_invariant) (simp_all add: spaced_def)
qed

theorem scheduler_monotone_witness:
  "spaced 1
     (starts (effects (onMessages
        [(0, Some \<lparr>inputTranscription = None, outputTranscription = None, turnComplete = False,
                    modelTurn = Some (Parts [Some ''AAA='']), interrupted = False\<rparr>),
         (0, Some \<lparr>inputTranscription = None, outputTranscription = None, turnComplete = False,
                    modelTurn = Some (Parts [Some ''AAA='']), interrupted = False\<rparr>)]
        (snd (startRecording
           \<lparr>contextId = 0, state = Running, maxNumberOfChannels = 32,
            minSampleRate = 8000, maxSampleRate = 96000\<rparr> None
           (initialAppState\<lparr>selectedDeviceId := ''default''\<rparr>))))))
   \<and> map fst
     (starts (effects (onMessages
        [(0, Some \<lparr>inputTranscription = None, outputTranscription = None, turnComplete = False,
                    modelTurn = Some (Parts [Some ''AAA='']), interrupted = False\<rparr>),
         (0, Some \<lparr>inputTranscription = None, outputTranscription = None, turnComplete = False,
                    modelTurn = Some (Parts [Some ''AAA='']), interrupted = False\<rparr>)]
        (snd (startRecording
           \<lparr>contextId = 0, state = Running, maxNumberOfChannels = 32,
            minSampleRate = 8000, maxSampleRate = 96000\<rparr> None
           (initialAppState\<lparr>selectedDeviceId := ''default''\<rparr>)))))) = [0, 1 / 24000]
   \<and> spaced (9646899 / 8388608)
     (starts (effects (handleServerMessages
        [(0, Some \<lparr>inputTranscription = None, outputTranscription = None, turnComplete = False,
                    modelTurn = Some (Parts [Some ''AAA='']), interrupted = False\<rparr>),
         (0, Some \<lparr>inputTranscription = None, outputTranscription = None, turnComplete = False,
                    modelTurn = Some (Parts [Some ''AAA='']), interrupted = False\<rparr>)]
        (snd (startSession
           \<lparr>contextId = 0, state = Running, maxNumberOfChannels = 32,
            minSampleRate = 8000, maxSampleRate = 96000\<rparr> None (Resolved None) None
           initialState)))))"
proof -
  let ?msgs = "[(0, Some \<lparr>inputTranscription = None, outputTranscription = None, turnComplete = False,
                    modelTurn = Some (Parts [Some ''AAA='']), interrupted = False\<rparr>),
         (0 :: real, Some \<lparr>inputTranscription = None, outputTranscription = None, turnComplete = False,
                    modelTurn = Some (Parts [Some ''AAA='']), interrupted = False\<rparr>)]"
  let ?p = "\<lparr>contextId = 0, state = Running, maxNumberOfChannels = 32,
            minSampleRate = 8000, maxSampleRate = 96000\<rparr>"
  let ?a = "snd (startRecording ?p None (initialAppState\<lparr>selectedDeviceId := ''default''\<rparr>))"
  let ?s = "snd (startSession ?p None (Resolved None) None initialState)"
  have ha: "starts (effects ?a) = []" unfolding recording_state by simp
  have hs: "starts (effects ?s) = []
        \<and> (\<forall>tm\<in>set ?msgs. \<forall>sc. snd tm = Some sc \<longrightarrow> \<not> interrupted sc)"
    unfolding session_state by auto
  from scheduler_monotone [of ?a ?msgs ?s] ha hs
  have "spaced 1 (starts (effects (onMessages ?msgs ?a)))"
    "spaced (9646899 / 8388608) (starts (effects (handleServerMessages ?msgs ?s)))"
    by blast+
  moreover have "map fst (starts (effects (onMessages ?msgs ?a))) = [0, 1 / 24000]"
    unfolding app_run by simp
  ultimately show ?thesis by blast
qed

text \<open>
  The claim as stated fails for the script: after \<open>startSession\<close>, two buffers of
  one sample (1/24000 s) that arrive at clock 0 start at 0 and at
  \<open>1 / 24000 / (9646899 / 8388608)\<close>, which is before 0 + 1/24000.
\<close>

theorem scheduler_monotone_counterexample:
  "map (\<lambda>x. (fst x, duration (buffer (snd x))))
     (starts (effects (handleServerMessages
        [(0, Some \<lparr>inputTranscription = None, outputTranscription = None, turnComplete = False,
                    modelTurn = Some (Parts [Some ''AAA='']), interrupted = False\<rparr>),
         (0, Some \<lparr>inputTranscription = None, outputTranscription = None, turnComplete = False,
                    modelTurn = Some (Parts [Some ''AAA='']), interrupted = False\<rparr>)]
        (snd (startSession
           \<lparr>contextId = 0, state = Running, maxNumberOfChannels = 32,
            minSampleRate = 8000, maxSampleRate = 96000\<rparr> None (Resolved None) None
           initialState)))))
   = [(0, 1 / 24000), (1 / 24000 / (9646899 / 8388608), 1 / 24000)]
   \<and> (1 / 24000 / (9646899 / 8388608) :: real) < 0 + 1 / 24000"
  unfolding script_run by (simp add: duration_def)

text \<open>
  Claim C5, as the code has it. When a message with the interruption flag is handled and
  the handling of its audio part does not throw (which is so whenever the message has no
  \<open>modelTurn\<close>), every source of \<open>outputSources\<close>, the one this message scheduled
  included, is stopped, \<open>outputSources\<close> becomes empty and \<open>nextStartTime\<close> is
  reset to 0.
\<close>

theorem interruption_handling:
  assumes "interrupted sc"
  shows "(modelTurn sc = None \<longrightarrow> fst (handleServerMessage currentTime (Some sc) s) = None)
       \<and> (fst (handleServerMessage currentTime (Some sc) s) = None \<longrightarrow>
            outputSources (snd (handleServerMessage currentTime (Some sc) s)) = []
          \<and> nextStartTime (snd (handleServerMessage currentTime (Some sc) s)) = 0
          \<and> (\<forall>source\<in>set (outputSources s).
                StopSource source \<in> set (effects (snd (handleServerMessage currentTime (Some sc) s))))
          \<and> (\<forall>source when.
                StartSource source when
                  \<in> set (drop (length (effects s))
                           (effects (snd (handleServerMessage currentTime (Some sc) s))))
                \<longrightarrow> StopSource source
                      \<in> set (effects (snd (handleServerMessage currentTime (Some sc) s)))))"
proof (intro conjI impI)
  let ?s0 = "handleTranscriptions (Some sc) s"
  obtain r s1 where h: "handleAudioOutput currentTime (Some sc) ?s0 = (r, s1)"
    by (cases "handleAudioOutput currentTime (Some sc) ?s0")
  show "fst (handleServerMessage currentTime (Some sc) s) = None" if "modelTurn sc = None"
    using that by (simp add: handleServerMessage_def handleAudioOutput_no_audio inlineAudio_no_modelTurn)
  assume completed: "fst (handleServerMessage currentTime (Some sc) s) = None"
  then have r: "r = None" using h by (cases r) (simp_all add: handleServerMessage_def)
  let ?s' = "snd (handleServerMessage currentTime (Some sc) s)"
  have s': "?s' = s1\<lparr>effects := effects s1 @ map StopSource (outputSources s1), outputSources := [],
          nextStartTime := 0\<rparr>"
    using h r assms by (simp add: handleServerMessage_def handleInterruption_interrupted)
  show "outputSources ?s' = []" "nextStartTime ?s' = 0" by (simp_all add: s')
  from handleAudioOutput_effects [OF h]
  have eff: "(effects s1 = effects s \<and> outputSources s1 = outputSources s)
       \<or> (\<exists>source w. effects s1 = effects s @ [StartSource source w]
            \<and> outputSources s1 = outputSources s @ [source])"
    by (auto simp add: handleTranscriptions_keeps)
  then show "\<forall>source\<in>set (outputSources s). StopSource source \<in> set (effects ?s')"
    by (auto simp add: s')
  show "\<forall>source when.
          StartSource source when \<in> set (drop (length (effects s)) (effects ?s'))
          \<longrightarrow> StopSource source \<in> set (effects ?s')"
    using eff by (auto simp add: s')
qed

theorem interruption_handling_witness:
  "outputSources
     (snd (handleServerMessage 3
        (Some \<lparr>inputTranscription = None, outputTranscription = None, turnComplete = False,
               modelTurn = None, interrupted = True\<rparr>)
        (initialState
           \<lparr>nextStartTime := 5,
            outputSources :=
              [\<lparr>sourceId = 0,
                buffer = \<lparr>frames = 1, sampleRate = 24000, channelData = [[Num 0]]\<rparr>,
                playbackRate = 9646899 / 8388608\<rparr>]\<rparr>))) = []
   \<and> nextStartTime
     (snd (handleServerMessage 3
        (Some \<lparr>inputTranscription = None, outputTranscription = None, turnComplete = False,
               modelTurn = None, interrupted = True\<rparr>)
        (initialState
           \<lparr>nextStartTime := 5,
            outputSources :=
              [\<lparr>sourceId = 0,
                buffer = \<lparr>frames = 1, sampleRate = 24000, channelData = [[Num 0]]\<rparr>,
                playbackRate = 9646899 / 8388608\<rparr>]\<rparr>))) = 0"
  using interruption_handling
    [of "\<lparr>inputTranscription = None, outputTranscription = None, turnComplete = False,
               modelTurn = None, interrupted = True\<rparr>" 3
        "initialState
           \<lparr>nextStartTime := 5,
            outputSources :=
              [\<lparr>sourceId = 0,
                buffer = \<lparr>frames = 1, sampleRate = 24000, channelData = [[Num 0]]\<rparr>,
                playbackRate = 9646899 / 8388608\<rparr>]\<rparr>"]
  by simp

text \<open>
  The claim as stated fails for a message that carries the interruption flag together
  with a payload that is not base64: \<open>decode\<close> throws before the interruption is
  looked at, the source stays in \<open>outputSources\<close> and the cursor stays at 5.
\<close>

theorem interruption_handling_counterexample:
  "handleServerMessage 3
     (Some \<lparr>inputTranscription = None, outputTranscription = None, turnComplete = False,
            modelTurn = Some (Parts [Some ''A'']), interrupted = True\<rparr>)
     (initialState
        \<lparr>outputAudioContext :=
           Some \<lparr>contextId = 0, state = Running, maxNumberOfChannels = 32,
                 minSampleRate = 8000, maxSampleRate = 96000\<rparr>,
         nextStartTime := 5,
         outputSources :=
           [\<lparr>sourceId = 0,
             buffer = \<lparr>frames = 1, sampleRate = 24000, channelData = [[Num 0]]\<rparr>,
             playbackRate = 9646899 / 8388608\<rparr>]\<rparr>)
   = (Some InvalidCharacterError,
      initialState
        \<lparr>outputAudioContext :=
           Some \<lparr>contextId = 0, state = Running, maxNumberOfChannels = 32,
                 minSampleRate = 8000, maxSampleRate = 96000\<rparr>,
         nextStartTime := 5,
         outputSources :=
           [\<lparr>sourceId = 0,
             buffer = \<lparr>frames = 1, sampleRate = 24000, channelData = [[Num 0]]\<rparr>,
             playbackRate = 9646899 / 8388608\<rparr>]\<rparr>)"
  by (simp add: handleServerMessage_def handleTranscriptions_def handleAudioOutput_def
      inlineAudio_def initialState_def decode_A)

text \<open>
  Claim C6, as the code has it. A step of the script's handler on a message without the
  interruption flag does not decrease \<open>nextStartTime\<close>, and no step of the app's
  handler decreases \<open>nextStartTimeRef\<close>. A step of the script's handler on a message
  with the interruption flag, when it is handled to its end, sets \<open>nextStartTime\<close>
  to 0, whatever the cursor was and whether or not a session is open.
\<close>

theorem cursor_monotone:
  "((\<forall>sc. message = Some sc \<longrightarrow> \<not> interrupted sc) \<longrightarrow>
      nextStartTime s \<le> nextStartTime (snd (handleServerMessage currentTime message s)))
   \<and> nextStartTimeRef a \<le> nextStartTimeRef (snd (onMessage currentTime message a))
   \<and> (\<forall>sc. message = Some sc \<and> interrupted sc
          \<and> fst (handleServerMessage currentTime message s) = None \<longrightarrow>
        nextStartTime (snd (handleServerMessage currentTime message s)) = 0)"
  using handleServerMessage_cursor [of message s currentTime]
    onMessage_cursor [of a currentTime message] handleServerMessage_reset [of _ currentTime s]
  by blast

theorem cursor_monotone_witness:
  "nextStartTime
     (snd (handleServerMessage 7
        (Some \<lparr>inputTranscription = None, outputTranscription = None, turnComplete = False,
               modelTurn = Some (Parts [Some ''AAA='']), interrupted = False\<rparr>)
        (snd (startSession
           \<lparr>contextId = 0, state = Running, maxNumberOfChannels = 32,
            minSampleRate = 8000, maxSampleRate = 96000\<rparr> None (Resolved None) None
           initialState))))
     = 7 + 1 / 24000 / (9646899 / 8388608)
   \<and> nextStartTime
       (snd (startSession
           \<lparr>contextId = 0, state = Running, maxNumberOfChannels = 32,
            minSampleRate = 8000, maxSampleRate = 96000\<rparr> None (Resolved None) None
           initialState))
     \<le> nextStartTime
     (snd (handleServerMessage 7
        (Some \<lparr>inputTranscription = None, outputTranscription = None, turnComplete = False,
               modelTurn = Some (Parts [Some ''AAA='']), interrupted = False\<rparr>)
        (snd (startSession
           \<lparr>contextId = 0, state = Running, maxNumberOfChannels = 32,
            minSampleRate = 8000, maxSampleRate = 96000\<rparr> None (Resolved None) None
           initialState))))"
proof -
  let ?m = "Some \<lparr>inputTranscription = None, outputTranscription = None, turnComplete = False,
               modelTurn = Some (Parts [Some ''AAA='']), interrupted = False\<rparr>"
  let ?p = "\<lparr>contextId = 0, state = Running, maxNumberOfChannels = 32,
            minSampleRate = 8000, maxSampleRate = 96000\<rparr>"
  let ?s = "snd (startSession ?p None (Resolved None) None initialState)"
  have v: "nextStartTime (snd (handleServerMessage 7 ?m ?s)) = 7 + 1 / 24000 / (9646899 / 8388608)"
    unfolding session_state
    by (simp add: handleServerMessage_def handleTranscriptions_def handleAudioOutput_def
      handleInterruption_def inlineAudio_def decode_AAA
      decodeAudioData_one_sample duration_def Let_def)
  have "\<forall>sc. ?m = Some sc \<longrightarrow> \<not> interrupted sc" by auto
  with cursor_monotone [of ?m ?s 7]
  have "nextStartTime ?s \<le> nextStartTime (snd (handleServerMessage 7 ?m ?s))"
    by blast
  with v show ?thesis by (intro conjI)
qed

text \<open>
  The claim as stated fails at an interruption within a session: after
  \<open>startSession\<close> and one buffer scheduled at clock 7 the session is open and the
  cursor is past 7; the interruption message that follows stops the source and sets the
  cursor to 0, and the session is still open.
\<close>

theorem cursor_monotone_counterexample:
  "session
     (snd (handleServerMessage 7
        (Some \<lparr>inputTranscription = None, outputTranscription = None, turnComplete = False,
               modelTurn = Some (Parts [Some ''AAA='']), interrupted = False\<rparr>)
        (snd (startSession
           \<lparr>contextId = 0, state = Running, maxNumberOfChannels = 32,
            minSampleRate = 8000, maxSampleRate = 96000\<rparr> None (Resolved None) None
           initialState)))) = Some 3
   \<and> nextStartTime
     (snd (handleServerMessage 7
        (Some \<lparr>inputTranscription = None, outputTranscription = None, turnComplete = False,
               modelTurn = Some (Parts [Some ''AAA='']), interrupted = False\<rparr>)
        (snd (startSession
           \<lparr>contextId = 0, state = Running, maxNumberOfChannels = 32,
            minSampleRate = 8000, maxSampleRate = 96000\<rparr> None (Resolved None) None
           initialState)))) = 7 + 1 / 24000 / (9646899 / 8388608)
   \<and> handleServerMessage 8
        (Some \<lparr>inputTranscription = None, outputTranscription = None, turnComplete = False,
               modelTurn = None, interrupted = True\<rparr>)
        (snd (handleServerMessage 7
           (Some \<lparr>inputTranscription = None, outputTranscription = None, turnComplete = False,
                  modelTurn = Some (Parts [Some ''AAA='']), interrupted = False\<rparr>)
           (snd (startSession
              \<lparr>contextId = 0, state = Running, maxNumberOfChannels = 32,
               minSampleRate = 8000, maxSampleRate = 96000\<rparr> None (Resolved None) None
              initialState))))
     = (None,
        \<lparr>effects =
           [Connect 3,
            StartSource
              \<lparr>sourceId = 6,
               buffer = \<lparr>frames = 1, sampleRate = 24000, channelData = [[Num 0]]\<rparr>,
               playbackRate = 9646899 / 8388608\<rparr> 7,
            StopSource
              \<lparr>sourceId = 6,
               buffer = \<lparr>frames = 1, sampleRate = 24000, channelData = [[Num 0]]\<rparr>,
               playbackRate = 9646899 / 8388608\<rparr>],
         fresh = 7,
         session = Some 3, mediaStream = Some 0,
         inputAudioContext =
           Some \<lparr>contextId = 1, state = Running, maxNumberOfChannels = 32,
                 minSampleRate = 8000, maxSampleRate = 96000\<rparr>,
         outputAudioContext =
           Some \<lparr>contextId = 2, state = Running, maxNumberOfChannels = 32,
                 minSampleRate = 8000, maxSampleRate = 96000\<rparr>,
         scriptProcessor = Some 5, mediaStreamSource = Some 4,
         nextStartTime = 0, outputSources = [],
         currentInputTranscription = [], currentOutputTranscription = [],
         fullUserTranscript = [], fullModelTranscript = []\<rparr>)"
  unfolding session_state
  by (simp add: handleServerMessage_def handleTranscriptions_def handleAudioOutput_def
      handleInterruption_def inlineAudio_def decode_AAA
      decodeAudioData_one_sample duration_def Let_def)

section \<open>The claim about transcripts\<close>




section \<open>The claims about recording\<close>







end
